theory Spec2Isabelle
  imports Complex_Main
begin

section \<open>Exceptions and effectful computations\<close>

text \<open>
  The harness of \<^verbatim>\<open>qinfer/perf_testing.py\<close> is Python 2 code that calls collaborators
  (model, prior, heuristic, updater, clock), any of which may raise and any of which may
  change state (the random number generator, the updater's particles, the clock).
  A computation is a function from the state before to an outcome (an exception or a
  value) and the state after. A raised exception keeps the state reached so far, as in
  Python.
\<close>

datatype pyexc =
    NameError string
  | UnboundLocalError string
  | ValueError string
  | IndexError string
  | TypeError string
  | AttributeError string
  | Raised string

type_synonym ('s, 'a) prog = "'s \<Rightarrow> (pyexc + 'a) \<times> 's"

definition ret :: "'a \<Rightarrow> ('s, 'a) prog" where
  "ret x = (\<lambda>s. (Inr x, s))"

definition lift :: "pyexc + 'a \<Rightarrow> ('s, 'a) prog" where
  "lift r = (\<lambda>s. (r, s))"

definition bnd :: "('s, 'a) prog \<Rightarrow> ('a \<Rightarrow> ('s, 'b) prog) \<Rightarrow> ('s, 'b) prog" where
  "bnd m f = (\<lambda>s. case m s of (Inl e, s') \<Rightarrow> (Inl e, s') | (Inr x, s') \<Rightarrow> f x s')"

section \<open>Timer and the timing context manager\<close>

text \<open>
  \<^verbatim>\<open>time.time()\<close> reads the clock of the state; it never raises. The clock is a
  parameter: a function from the state to the reading and the state after the reading.
\<close>

type_synonym 's clock = "'s \<Rightarrow> real \<times> 's"

definition time_time :: "'s clock \<Rightarrow> ('s, real) prog" where
  "time_time clock = (\<lambda>s. case clock s of (now, s') \<Rightarrow> (Inr now, s'))"

text \<open>Class \<^verbatim>\<open>Timer\<close>: the fields \<^verbatim>\<open>_tic\<close> and \<^verbatim>\<open>_toc\<close> (\<^verbatim>\<open>None\<close> until stopped).\<close>

record timer =
  tic :: real
  toc :: "real option"

definition Timer :: "'s clock \<Rightarrow> ('s, timer) prog" where
  "Timer clock = bnd (time_time clock) (\<lambda>now. ret \<lparr>tic = now, toc = None\<rparr>)"

definition stop :: "'s clock \<Rightarrow> timer \<Rightarrow> ('s, timer) prog" where
  "stop clock t = bnd (time_time clock) (\<lambda>now. ret (t\<lparr>toc := Some now\<rparr>))"

definition delta_t :: "'s clock \<Rightarrow> timer \<Rightarrow> ('s, real) prog" where
  "delta_t clock t =
     (case toc t of
        Some x \<Rightarrow> ret (x - tic t)
      | None \<Rightarrow> bnd (time_time clock) (\<lambda>now. ret (now - tic t)))"

text \<open>
  \<^verbatim>\<open>with timing() as t: block\<close>. The generator creates the timer, yields it to the block
  and stops it after the block. There is no \<^verbatim>\<open>try/finally\<close> around the \<^verbatim>\<open>yield\<close>: when
  the block raises, the exception leaves the generator and \<^verbatim>\<open>stop\<close> is not called.
  The result is the timer as the code after the \<^verbatim>\<open>with\<close> statement sees it.
\<close>

definition timing :: "'s clock \<Rightarrow> (timer \<Rightarrow> ('s, 'a) prog) \<Rightarrow> ('s, timer) prog" where
  "timing clock block = bnd (Timer clock) (\<lambda>t. bnd (block t) (\<lambda>_. stop clock t))"

section \<open>The serial apply\<close>

text \<open>
  The names bound at module level of \<^verbatim>\<open>perf_testing.py\<close>, in the order the module binds
  them. A name that is neither local nor bound here nor a Python builtin raises
  \<^verbatim>\<open>NameError\<close> when read; Python 2 has no builtin called \<^verbatim>\<open>fn\<close>.
\<close>

datatype pyobj = PyModule string | PyClass string | PyFunction string | PyValue string

definition module_globals :: "(string \<times> pyobj) list" where
  "module_globals =
     [(''division'', PyValue ''__future__.division''),
      (''__all__'', PyValue ''list''),
      (''contextmanager'', PyFunction ''contextlib.contextmanager''),
      (''partial'', PyClass ''functools.partial''),
      (''threading'', PyModule ''threading''),
      (''time'', PyModule ''time''),
      (''np'', PyModule ''numpy''),
      (''SMCUpdater'', PyClass ''qinfer.smc.SMCUpdater''),
      (''Timer'', PyClass ''Timer''),
      (''WebProgressThread'', PyClass ''WebProgressThread''),
      (''timing'', PyFunction ''timing''),
      (''PERFORMANCE_DTYPE'', PyValue ''list''),
      (''perf_test'', PyFunction ''perf_test''),
      (''apply_serial'', PyClass ''apply_serial''),
      (''perf_test_multiple'', PyFunction ''perf_test_multiple'')]"

definition load_global :: "string \<Rightarrow> pyexc + pyobj" where
  "load_global name =
     (case map_of module_globals name of
        None \<Rightarrow> Inl (NameError name)
      | Some v \<Rightarrow> Inr v)"

text \<open>
  Class \<^verbatim>\<open>apply_serial\<close>. The constructor is \<^verbatim>\<open>__init__(self, *args, **kwargs)\<close>: its
  locals are \<^verbatim>\<open>self\<close>, \<^verbatim>\<open>args\<close> and \<^verbatim>\<open>kwargs\<close>, so \<^verbatim>\<open>fn\<close> in \<^verbatim>\<open>self._fn = fn\<close> is read
  as a global. \<^verbatim>\<open>_value\<close> is \<^verbatim>\<open>None\<close> and \<^verbatim>\<open>_done\<close> is \<^verbatim>\<open>False\<close> from the class.
\<close>

record ('a, 'k, 'r) apply_serial =
  self_fn :: pyobj
  self_args :: "'a list"
  self_kwargs :: 'k
  self_value :: "'r option"
  self_done :: bool

definition apply_serial_init :: "'a list \<Rightarrow> 'k \<Rightarrow> pyexc + ('a, 'k, 'r) apply_serial" where
  "apply_serial_init args kwargs =
     (case load_global ''fn'' of
        Inl e \<Rightarrow> Inl e
      | Inr f \<Rightarrow> Inr \<lparr>self_fn = f, self_args = args, self_kwargs = kwargs, self_value = None, self_done = False\<rparr>)"

text \<open>
  \<^verbatim>\<open>get\<close> calls the stored function once and caches the value; \<open>call\<close> is Python's call
  of an object on positional and keyword arguments. The result is the returned value
  (\<open>None\<close> is Python's \<^verbatim>\<open>None\<close>) and the handle after the call.
\<close>

definition apply_serial_get ::
  "(pyobj \<Rightarrow> 'a list \<Rightarrow> 'k \<Rightarrow> ('s, 'r) prog) \<Rightarrow> ('a, 'k, 'r) apply_serial
     \<Rightarrow> ('s, 'r option \<times> ('a, 'k, 'r) apply_serial) prog" where
  "apply_serial_get call h =
     (if \<not> self_done h
      then bnd (call (self_fn h) (self_args h) (self_kwargs h))
             (\<lambda>v. let h' = h\<lparr>self_value := Some v, self_done := True\<rparr> in ret (self_value h', h'))
      else ret (self_value h, h))"

section \<open>Record arrays and the numpy operations of the harness\<close>

text \<open>
  A numpy record type is a list of field names with their types; a record is the list of
  its fields with their values, in the order of the record type. Floats are modelled as
  real numbers, Python's unbounded integers as integers. A stored value is kept as it
  is given: numpy's conversion between numeric field types is not modelled.
\<close>

datatype ftype = TFloat | TInt

datatype fval = FloatV real | IntV int

type_synonym dtype = "(string \<times> ftype) list"

type_synonym row = "(string \<times> fval) list"

definition PERFORMANCE_DTYPE :: dtype where
  "PERFORMANCE_DTYPE =
     [(''loss'', TFloat),
      (''resample_count'', TInt),
      (''elapsed_time'', TFloat),
      (''outcome'', TInt)]"

fun zero_of :: "ftype \<Rightarrow> fval" where
  "zero_of TFloat = FloatV 0"
| "zero_of TInt = IntV 0"

definition zero_row :: "dtype \<Rightarrow> row" where
  "zero_row dt = map (\<lambda>(name, ty). (name, zero_of ty)) dt"

text \<open>
  \<^verbatim>\<open>np.zeros((n,), dtype=dt)\<close>: numpy refuses a record type in which a field name occurs
  twice.
\<close>

definition np_zeros :: "nat \<Rightarrow> dtype \<Rightarrow> pyexc + row list" where
  "np_zeros n dt =
     (if distinct (map fst dt) then Inr (replicate n (zero_row dt))
      else Inl (ValueError ''field name occurs twice''))"

text \<open>\<^verbatim>\<open>rec[name]\<close>, and \<^verbatim>\<open>arr[idx][name] = v\<close> on a one-dimensional record array.\<close>

definition getfield :: "row \<Rightarrow> string \<Rightarrow> pyexc + fval" where
  "getfield r name =
     (case map_of r name of
        None \<Rightarrow> Inl (ValueError ''no field of name'')
      | Some v \<Rightarrow> Inr v)"

definition update_field :: "string \<Rightarrow> fval \<Rightarrow> row \<Rightarrow> row" where
  "update_field name v r = map (\<lambda>(n, x). if n = name then (n, v) else (n, x)) r"

definition setfield :: "row list \<Rightarrow> nat \<Rightarrow> string \<Rightarrow> fval \<Rightarrow> pyexc + row list" where
  "setfield arr idx name v =
     (if length arr \<le> idx then Inl (IndexError ''index out of bounds'')
      else if name \<in> set (map fst (arr ! idx))
      then Inr (arr[idx := update_field name v (arr ! idx)])
      else Inl (ValueError ''no field of name''))"

text \<open>
  The arithmetic of the loss. The posterior mean is a one-dimensional array, the true
  model parameters a two-dimensional one (one row per true model, as
  \<^verbatim>\<open>prior.sample()\<close> returns them), and \<^verbatim>\<open>model.Q\<close> is a one-dimensional or a
  two-dimensional array.

  \<^verbatim>\<open>a - b\<close> broadcasts the one-dimensional \<open>a\<close> against every row of \<open>b\<close>: the lengths
  agree, or one of them is 1.
\<close>

datatype ndarray = Vec "real list" | Mat "real list list"

definition broadcast_sub :: "real list \<Rightarrow> real list \<Rightarrow> pyexc + real list" where
  "broadcast_sub a r =
     (if length a = length r then Inr (map2 (-) a r)
      else if length a = 1 then Inr (map (\<lambda>y. hd a - y) r)
      else if length r = 1 then Inr (map (\<lambda>x. x - hd r) a)
      else Inl (ValueError ''operands could not be broadcast together''))"

fun np_subtract :: "real list \<Rightarrow> real list list \<Rightarrow> pyexc + real list list" where
  "np_subtract a [] = Inr []"
| "np_subtract a (r # rs) =
     (case broadcast_sub a r of
        Inl e \<Rightarrow> Inl e
      | Inr d \<Rightarrow> (case np_subtract a rs of Inl e \<Rightarrow> Inl e | Inr ds \<Rightarrow> Inr (d # ds)))"

text \<open>\<^verbatim>\<open>delta**2\<close> squares every element.\<close>

definition np_square :: "real list list \<Rightarrow> real list list" where
  "np_square a = map (map (\<lambda>x. x ^ 2)) a"

definition inner :: "real list \<Rightarrow> real list \<Rightarrow> real" where
  "inner xs ys = sum_list (map2 (*) xs ys)"

definition columns :: "real list list \<Rightarrow> real list list" where
  "columns m = (case m of [] \<Rightarrow> [] | r # _ \<Rightarrow> map (\<lambda>j. map (\<lambda>row. row ! j) m) [0..<length r])"

text \<open>
  \<^verbatim>\<open>np.dot(a, q)\<close> for a two-dimensional \<open>a\<close>: against a one-dimensional \<open>q\<close> the result
  has one entry per row of \<open>a\<close>; against a two-dimensional \<open>q\<close> it is the matrix product.
\<close>

fun np_dot :: "real list list \<Rightarrow> ndarray \<Rightarrow> pyexc + ndarray" where
  "np_dot a (Vec q) =
     (if list_all (\<lambda>r. length r = length q) a then Inr (Vec (map (\<lambda>r. inner r q) a))
      else Inl (ValueError ''shapes not aligned''))"
| "np_dot a (Mat m) =
     (if list_all (\<lambda>r. length r = length m) a
      then Inr (Mat (map (\<lambda>r. map (inner r) (columns m)) a))
      else Inl (ValueError ''shapes not aligned''))"

text \<open>
  Storing an array into a float field: an array with exactly one element is converted
  to that element, any other array is refused.
\<close>

fun to_scalar :: "ndarray \<Rightarrow> pyexc + real" where
  "to_scalar (Vec [x]) = Inr x"
| "to_scalar (Mat [[x]]) = Inr x"
| "to_scalar _ = Inl (ValueError ''setting an array element with a sequence.'')"

section \<open>The collaborators\<close>

text \<open>
  The model, the prior and the updater are objects the harness only calls. An object is
  a handle (\<open>'m\<close> for models, \<open>'p\<close> for distributions, \<open>'u\<close> for updaters); the
  environment gives each method as a computation on the state, which holds the random
  number generator, the particles of every updater and the clock.
  \<^item> \<open>clock\<close> is \<^verbatim>\<open>time.time\<close>;
  \<^item> \<open>type_name\<close> is \<^verbatim>\<open>getattr(type(model), '__name__', 'unknown model')\<close>;
  \<^item> \<open>expparams_dtype\<close> and \<open>Q\<close> are the attributes of a model, \<open>simulate_experiment\<close>
    its method;
  \<^item> \<open>sample\<close> is the method of a distribution, called with no arguments;
  \<^item> \<open>SMCUpdater\<close> is the constructor of the class that the module imports from
    \<^verbatim>\<open>qinfer.smc\<close>, \<open>update\<close> and \<open>est_mean\<close> its methods and \<open>resample_count\<close> its
    attribute. The class is taken as given: the harness is verified for every updater.
\<close>

type_synonym expparams = row

record ('s, 'm, 'p, 'u) env =
  clock :: "'s clock"
  type_name :: "'m \<Rightarrow> string"
  expparams_dtype :: "'m \<Rightarrow> dtype"
  Q :: "'m \<Rightarrow> ndarray"
  simulate_experiment :: "'m \<Rightarrow> real list list \<Rightarrow> expparams \<Rightarrow> ('s, int) prog"
  sample :: "'p \<Rightarrow> ('s, real list list) prog"
  SMCUpdater :: "'m \<Rightarrow> int \<Rightarrow> 'p \<Rightarrow> ('s, 'u) prog"
  update :: "'u \<Rightarrow> int \<Rightarrow> expparams \<Rightarrow> ('s, unit) prog"
  est_mean :: "'u \<Rightarrow> ('s, real list) prog"
  resample_count :: "'u \<Rightarrow> ('s, int) prog"

text \<open>
  A heuristic class is called on the updater and returns the heuristic, which is called
  with no arguments and returns one experiment-parameter record.
\<close>

type_synonym ('s, 'u) heuristic_class = "'u \<Rightarrow> ('s, ('s, expparams) prog) prog"

section \<open>A single trial: \<^verbatim>\<open>perf_test\<close>\<close>

text \<open>
  The loop over \<^verbatim>\<open>[param[0] for param in model.expparams_dtype]\<close>, copying each field
  of the experiment parameters into the record.
\<close>

fun copy_expparams :: "row list \<Rightarrow> nat \<Rightarrow> expparams \<Rightarrow> string list \<Rightarrow> pyexc + row list" where
  "copy_expparams performance idx_exp expparams [] = Inr performance"
| "copy_expparams performance idx_exp expparams (param_name # names) =
     (case getfield expparams param_name of
        Inl e \<Rightarrow> Inl e
      | Inr v \<Rightarrow>
          (case setfield performance idx_exp param_name v of
             Inl e \<Rightarrow> Inl e
           | Inr performance' \<Rightarrow> copy_expparams performance' idx_exp expparams names))"

text \<open>The body of the loop over \<^verbatim>\<open>idx_exp\<close>, statement by statement.\<close>

definition perf_test_body ::
  "('s, 'm, 'p, 'u) env \<Rightarrow> 'm \<Rightarrow> 'm \<Rightarrow> real list list \<Rightarrow> 'u \<Rightarrow> ('s, expparams) prog
     \<Rightarrow> row list \<Rightarrow> nat \<Rightarrow> ('s, row list) prog" where
  "perf_test_body E model true_model true_mps updater heuristic performance idx_exp =
     bnd heuristic (\<lambda>expparams.
     bnd (simulate_experiment E true_model true_mps expparams) (\<lambda>datum.
     bnd (timing (clock E) (\<lambda>t. update E updater datum expparams)) (\<lambda>t.
     bnd (est_mean E updater) (\<lambda>mean.
     bnd (lift (np_subtract mean true_mps)) (\<lambda>delta.
     bnd (delta_t (clock E) t) (\<lambda>dt.
     bnd (lift (setfield performance idx_exp ''elapsed_time'' (FloatV dt))) (\<lambda>performance.
     bnd (lift (np_dot (np_square delta) (Q E model))) (\<lambda>d.
     bnd (lift (to_scalar d)) (\<lambda>loss.
     bnd (lift (setfield performance idx_exp ''loss'' (FloatV loss))) (\<lambda>performance.
     bnd (resample_count E updater) (\<lambda>rc.
     bnd (lift (setfield performance idx_exp ''resample_count'' (IntV rc))) (\<lambda>performance.
     bnd (lift (setfield performance idx_exp ''outcome'' (IntV datum))) (\<lambda>performance.
     lift (copy_expparams performance idx_exp expparams
             (map fst (expparams_dtype E model))))))))))))))))"

fun perf_test_loop ::
  "('s, 'm, 'p, 'u) env \<Rightarrow> 'm \<Rightarrow> 'm \<Rightarrow> real list list \<Rightarrow> 'u \<Rightarrow> ('s, expparams) prog
     \<Rightarrow> nat list \<Rightarrow> row list \<Rightarrow> ('s, row list) prog" where
  "perf_test_loop E model true_model true_mps updater heuristic [] performance =
     ret performance"
| "perf_test_loop E model true_model true_mps updater heuristic (idx_exp # rest) performance =
     bnd (perf_test_body E model true_model true_mps updater heuristic performance idx_exp)
       (perf_test_loop E model true_model true_mps updater heuristic rest)"

text \<open>
  \<^verbatim>\<open>perf_test\<close>. The optional arguments are \<open>None\<close> when the caller leaves them out.
  A negative \<^verbatim>\<open>n_exp\<close> gives \<^verbatim>\<open>np.zeros\<close> a negative dimension, which it refuses.
\<close>

definition perf_test ::
  "('s, 'm, 'p, 'u) env \<Rightarrow> 'm \<Rightarrow> int \<Rightarrow> 'p \<Rightarrow> int \<Rightarrow> ('s, 'u) heuristic_class
     \<Rightarrow> 'm option \<Rightarrow> 'p option \<Rightarrow> real list list option \<Rightarrow> ('s, row list) prog" where
  "perf_test E model n_particles prior n_exp heuristic_class true_model true_prior true_mps =
     (let true_model = (case true_model of None \<Rightarrow> model | Some m \<Rightarrow> m);
          true_prior = (case true_prior of None \<Rightarrow> prior | Some p \<Rightarrow> p)
      in
        bnd (case true_mps of None \<Rightarrow> sample E true_prior | Some mps \<Rightarrow> ret mps) (\<lambda>true_mps.
        bnd (lift (if n_exp < 0 then Inl (ValueError ''negative dimensions are not allowed'')
                   else np_zeros (nat n_exp) (PERFORMANCE_DTYPE @ expparams_dtype E model)))
          (\<lambda>performance.
        bnd (SMCUpdater E model n_particles prior) (\<lambda>updater.
        bnd (heuristic_class updater) (\<lambda>heuristic.
        perf_test_loop E model true_model true_mps updater heuristic
          [0..<nat n_exp] performance)))))"

text \<open>
  The value \<^verbatim>\<open>perf_test\<close> stores in the field \<^verbatim>\<open>loss\<close>, as a function of the posterior
  mean, the true model parameters and \<^verbatim>\<open>model.Q\<close>: the three steps of the body that
  compute it, in the body's order.
\<close>

definition compute_loss :: "real list \<Rightarrow> real list list \<Rightarrow> ndarray \<Rightarrow> pyexc + real" where
  "compute_loss mean true_mps q =
     (case np_subtract mean true_mps of
        Inl e \<Rightarrow> Inl e
      | Inr delta \<Rightarrow>
          (case np_dot (np_square delta) q of
             Inl e \<Rightarrow> Inl e
           | Inr d \<Rightarrow> to_scalar d))"

section \<open>What one experiment of a trial is, in the words of the specification\<close>

text \<open>
  One experiment of a trial yields: the experiment parameters the heuristic chose, the
  simulated outcome, the clock readings around the update, and the posterior mean and
  the resample count read from the updater after the update.
\<close>

record observation =
  ob_expparams :: expparams
  ob_datum :: int
  ob_tic :: real
  ob_toc :: real
  ob_mean :: "real list"
  ob_resample_count :: int

text \<open>
  The performance record of the specification: loss, cumulative resample count, elapsed
  wall-time of the update, the outcome, and one field per entry of the model's
  experiment-parameter record type, holding the experiment parameters used.
\<close>

definition performance_record :: "dtype \<Rightarrow> real \<Rightarrow> observation \<Rightarrow> row" where
  "performance_record ed loss ob =
     [(''loss'', FloatV loss),
      (''resample_count'', IntV (ob_resample_count ob)),
      (''elapsed_time'', FloatV (ob_toc ob - ob_tic ob)),
      (''outcome'', IntV (ob_datum ob))]
     @ map (\<lambda>(name, ty). (name, case map_of (ob_expparams ob) name of
                                    None \<Rightarrow> zero_of ty | Some v \<Rightarrow> v)) ed"

text \<open>
  The stores of the body into record \<^verbatim>\<open>idx_exp\<close>, in the body's order: elapsed time,
  loss, resample count, outcome, then the experiment parameters.
\<close>

definition store_record ::
  "row list \<Rightarrow> nat \<Rightarrow> string list \<Rightarrow> real \<Rightarrow> observation \<Rightarrow> pyexc + row list" where
  "store_record performance idx_exp names loss ob =
     (case setfield performance idx_exp ''elapsed_time'' (FloatV (ob_toc ob - ob_tic ob)) of
        Inl e \<Rightarrow> Inl e
      | Inr p1 \<Rightarrow>
     (case setfield p1 idx_exp ''loss'' (FloatV loss) of
        Inl e \<Rightarrow> Inl e
      | Inr p2 \<Rightarrow>
     (case setfield p2 idx_exp ''resample_count'' (IntV (ob_resample_count ob)) of
        Inl e \<Rightarrow> Inl e
      | Inr p3 \<Rightarrow>
     (case setfield p3 idx_exp ''outcome'' (IntV (ob_datum ob)) of
        Inl e \<Rightarrow> Inl e
      | Inr p4 \<Rightarrow> copy_expparams p4 idx_exp (ob_expparams ob) names))))"




section \<open>Recording the calls the harness makes\<close>

text \<open>
  To observe which collaborator calls a run makes, in which order and with which
  arguments, every method of an environment is wrapped so that a call that returns
  appends an event to a log kept beside the state. The wrapped environment behaves as
  the given one on the state.
\<close>

datatype ('m, 'p, 'u) event =
    EvSample 'p "real list list"
  | EvSMCUpdater 'm int 'p 'u
  | EvHeuristicClass 'u
  | EvHeuristic expparams
  | EvSimulate 'm "real list list" expparams int
  | EvTime real
  | EvUpdate 'u int expparams
  | EvEstMean 'u "real list"
  | EvResampleCount 'u int

definition logging :: "('a \<Rightarrow> 'e) \<Rightarrow> ('s, 'a) prog \<Rightarrow> ('s \<times> 'e list, 'a) prog" where
  "logging ev m =
     (\<lambda>(s, l). case m s of
                 (Inl e, s') \<Rightarrow> (Inl e, (s', l))
               | (Inr x, s') \<Rightarrow> (Inr x, (s', l @ [ev x])))"

definition logged ::
  "('s, 'm, 'p, 'u) env \<Rightarrow> ('s \<times> ('m, 'p, 'u) event list, 'm, 'p, 'u) env" where
  "logged E =
     \<lparr>clock = (\<lambda>(s, l). case clock E s of (t, s') \<Rightarrow> (t, (s', l @ [EvTime t]))),
      type_name = type_name E,
      expparams_dtype = expparams_dtype E,
      Q = Q E,
      simulate_experiment =
        (\<lambda>m mps e. logging (EvSimulate m mps e) (simulate_experiment E m mps e)),
      sample = (\<lambda>p. logging (EvSample p) (sample E p)),
      SMCUpdater = (\<lambda>m n p. logging (EvSMCUpdater m n p) (SMCUpdater E m n p)),
      update = (\<lambda>u d e. logging (\<lambda>_. EvUpdate u d e) (update E u d e)),
      est_mean = (\<lambda>u. logging (EvEstMean u) (est_mean E u)),
      resample_count = (\<lambda>u. logging (EvResampleCount u) (resample_count E u))\<rparr>"

definition logged_heuristic_class ::
  "('s, 'u) heuristic_class \<Rightarrow> ('s \<times> ('m, 'p, 'u) event list, 'u) heuristic_class" where
  "logged_heuristic_class heuristic_class =
     (\<lambda>u. bnd (logging (\<lambda>_. EvHeuristicClass u) (heuristic_class u))
            (\<lambda>h. ret (logging EvHeuristic h)))"

text \<open>The events of one experiment, in the order the specification gives them.\<close>

definition events_of :: "'m \<Rightarrow> real list list \<Rightarrow> 'u \<Rightarrow> observation \<Rightarrow> ('m, 'p, 'u) event list" where
  "events_of true_model true_mps updater ob =
     [EvHeuristic (ob_expparams ob),
      EvSimulate true_model true_mps (ob_expparams ob) (ob_datum ob),
      EvTime (ob_tic ob),
      EvUpdate updater (ob_datum ob) (ob_expparams ob),
      EvTime (ob_toc ob),
      EvEstMean updater (ob_mean ob),
      EvResampleCount updater (ob_resample_count ob)]"

section \<open>Many trials: \<^verbatim>\<open>perf_test_multiple\<close>\<close>

text \<open>
  A local variable of a Python function is unbound until an assignment to it has run;
  reading it then raises \<^verbatim>\<open>UnboundLocalError\<close>. Once bound it holds \<^verbatim>\<open>None\<close> or an
  object.
\<close>

datatype 'a pyvar = Unbound | PyNone | Obj 'a

definition load_fast :: "string \<Rightarrow> 'a pyvar \<Rightarrow> pyexc + 'a option" where
  "load_fast name v =
     (case v of
        Unbound \<Rightarrow> Inl (UnboundLocalError name)
      | PyNone \<Rightarrow> Inr None
      | Obj x \<Rightarrow> Inr (Some x))"

text \<open>
  The progress-reporting collaborator: a client that creates a task, and the task with
  its \<^verbatim>\<open>update(progress=...)\<close> and \<^verbatim>\<open>delete()\<close>.
\<close>

record 's tskmon_task =
  tsk_update :: "int \<Rightarrow> ('s, unit) prog"
  tsk_delete :: "('s, unit) prog"

record 's tskmon_client =
  new_task :: "string \<Rightarrow> string \<Rightarrow> int \<Rightarrow> ('s, 's tskmon_task) prog"

text \<open>
  The fields of a \<^verbatim>\<open>WebProgressThread\<close> that the harness and the thread both access
  (\<^verbatim>\<open>done\<close>, \<^verbatim>\<open>dirty\<close>, \<^verbatim>\<open>progress\<close>, with the class's initial values), and the flag of
  the event the thread waits on.
\<close>

record WebProgressThread =
  thread_done :: bool
  dirty :: bool
  progress :: int
  wake_event_flag :: bool

definition new_thread :: WebProgressThread where
  "new_thread = \<lparr>thread_done = False, dirty = False, progress = 0, wake_event_flag = False\<rparr>"

text \<open>The three statements by which the harness reports a collected trial.\<close>

definition set_progress :: "int \<Rightarrow> WebProgressThread \<Rightarrow> WebProgressThread" where
  "set_progress n t = t\<lparr>progress := n\<rparr>"

definition set_dirty :: "WebProgressThread \<Rightarrow> WebProgressThread" where
  "set_dirty t = t\<lparr>dirty := True\<rparr>"

definition event_set :: "WebProgressThread \<Rightarrow> WebProgressThread" where
  "event_set t = t\<lparr>wake_event_flag := True\<rparr>"

text \<open>The locals \<^verbatim>\<open>thread\<close>, \<^verbatim>\<open>task\<close> and \<^verbatim>\<open>wake_event\<close> of \<^verbatim>\<open>perf_test_multiple\<close>.\<close>

record 's locals =
  thread :: "WebProgressThread pyvar"
  task :: "'s tskmon_task pyvar"
  wake_event :: "unit pyvar"

text \<open>
  The block \<^verbatim>\<open>if tskmon_client is not None: try: ... except Exception\<close>. Creating the
  event and creating and starting the thread do not fail; \<^verbatim>\<open>new_task\<close> may. With no
  client the block is skipped and none of the three locals is assigned. What the
  \<^verbatim>\<open>print\<close> statements write is not modelled.
\<close>

definition start_progress ::
  "('s, 'm, 'p, 'u) env \<Rightarrow> 'm \<Rightarrow> int \<Rightarrow> 's tskmon_client option \<Rightarrow> ('s, 's locals) prog" where
  "start_progress E model n_trials tskmon_client =
     (case tskmon_client of
        None \<Rightarrow> ret \<lparr>thread = Unbound, task = Unbound, wake_event = Unbound\<rparr>
      | Some client \<Rightarrow>
          (\<lambda>s. case new_task client ''QInfer Performance Testing''
                      (''Testing '' @ type_name E model @ ''...'') n_trials s of
                  (Inr t, s') \<Rightarrow>
                    (Inr \<lparr>thread = Obj new_thread, task = Obj t, wake_event = Obj ()\<rparr>, s')
                | (Inl ex, s') \<Rightarrow>
                    (Inr \<lparr>thread = PyNone, task = PyNone, wake_event = PyNone\<rparr>, s')))"

text \<open>\<^verbatim>\<open>results = [apply(trial_fn) for idx in xrange(n_trials)]\<close>\<close>

fun dispatch :: "('f \<Rightarrow> ('s, 'h) prog) \<Rightarrow> 'f \<Rightarrow> nat \<Rightarrow> ('s, 'h list) prog" where
  "dispatch apply trial_fn 0 = ret []"
| "dispatch apply trial_fn (Suc n) =
     bnd (apply trial_fn) (\<lambda>h. bnd (dispatch apply trial_fn n) (\<lambda>hs. ret (h # hs)))"

text \<open>\<^verbatim>\<open>np.zeros((n_trials, n_exp), dtype=dt)\<close>\<close>

definition np_zeros2 :: "int \<Rightarrow> int \<Rightarrow> dtype \<Rightarrow> pyexc + row list list" where
  "np_zeros2 n_trials n_exp dt =
     (if n_trials < 0 \<or> n_exp < 0 then Inl (ValueError ''negative dimensions are not allowed'')
      else if distinct (map fst dt)
      then Inr (replicate (nat n_trials) (replicate (nat n_exp) (zero_row dt)))
      else Inl (ValueError ''field name occurs twice''))"

text \<open>
  \<^verbatim>\<open>performance[idx, :] = value\<close> for a one-dimensional record array \<open>value\<close>. The value
  must have the length of the row or length one. Assignment between record arrays of
  different record types goes by field name, as numpy did when the module was written:
  each field of the target takes the source's field of that name, or zero.
\<close>

definition cast_record :: "dtype \<Rightarrow> row \<Rightarrow> row" where
  "cast_record dt r =
     map (\<lambda>(name, ty). (name, case map_of r name of None \<Rightarrow> zero_of ty | Some v \<Rightarrow> v)) dt"

definition setitem_row :: "dtype \<Rightarrow> row list list \<Rightarrow> nat \<Rightarrow> row list \<Rightarrow> pyexc + row list list" where
  "setitem_row dt performance idx v =
     (if length performance \<le> idx then Inl (IndexError ''index out of bounds'')
      else if length v = length (performance ! idx)
      then Inr (performance[idx := map (cast_record dt) v])
      else if length v = 1
      then Inr (performance[idx := replicate (length (performance ! idx)) (cast_record dt (hd v))])
      else Inl (ValueError ''could not broadcast input array''))"

text \<open>
  The loop \<^verbatim>\<open>for idx, result in enumerate(results)\<close>: collect the result of trial
  \<^verbatim>\<open>idx\<close>, store it, read the local \<^verbatim>\<open>thread\<close> and, when it is not \<^verbatim>\<open>None\<close>, report.
\<close>

fun collect ::
  "('h \<Rightarrow> ('s, row list) prog) \<Rightarrow> 'h list \<Rightarrow> nat \<Rightarrow> row list list \<Rightarrow> 's locals
     \<Rightarrow> ('s, row list list \<times> 's locals) prog" where
  "collect get [] idx performance locals = ret (performance, locals)"
| "collect get (result # results) idx performance locals =
     bnd (get result) (\<lambda>v.
     bnd (lift (setitem_row PERFORMANCE_DTYPE performance idx v)) (\<lambda>performance.
     bnd (lift (load_fast ''thread'' (thread locals))) (\<lambda>th.
       case th of
         None \<Rightarrow> collect get results (Suc idx) performance locals
       | Some t \<Rightarrow>
           bnd (lift (load_fast ''wake_event'' (wake_event locals))) (\<lambda>ev.
             case ev of
               None \<Rightarrow> lift (Inl (AttributeError ''set''))
             | Some _ \<Rightarrow>
                 collect get results (Suc idx) performance
                   (locals\<lparr>thread :=
                      Obj (event_set (set_dirty (set_progress (int idx + 1) t)))\<rparr>)))))"

text \<open>
  The block \<^verbatim>\<open>if task is not None: try: ... except:\<close> after the loop. Whatever is raised
  inside the \<^verbatim>\<open>try\<close> is swallowed; reading \<^verbatim>\<open>task\<close> for the test is outside it.
\<close>

definition cleanup :: "'s locals \<Rightarrow> ('s, 's locals) prog" where
  "cleanup locals =
     bnd (lift (load_fast ''task'' (task locals))) (\<lambda>tk.
       case tk of
         None \<Rightarrow> ret locals
       | Some t \<Rightarrow>
           (\<lambda>s. case bnd (lift (load_fast ''thread'' (thread locals))) (\<lambda>th.
                         case th of
                           None \<Rightarrow> lift (Inl (AttributeError ''done''))
                         | Some w \<Rightarrow>
                             bnd (lift (load_fast ''wake_event'' (wake_event locals))) (\<lambda>ev.
                               case ev of
                                 None \<Rightarrow> lift (Inl (AttributeError ''set''))
                               | Some _ \<Rightarrow>
                                   bnd (tsk_delete t) (\<lambda>_.
                                     ret (locals\<lparr>thread :=
                                       Obj (event_set (w\<lparr>thread_done := True\<rparr>))\<rparr>)))) s of
                   (Inr locals', s') \<Rightarrow> (Inr locals', s')
                 | (Inl ex, s') \<Rightarrow> (Inr locals, s')))"

text \<open>
  \<^verbatim>\<open>perf_test_multiple\<close>. The parallelisation engine is given by \<open>apply\<close>, which takes the
  trial function and returns a handle, and by \<open>get\<close>, the handle's method.
  \<^verbatim>\<open>partial(perf_test, ...)\<close> never passes \<^verbatim>\<open>true_mps\<close>.
\<close>

definition perf_test_multiple ::
  "('s, 'm, 'p, 'u) env \<Rightarrow> int \<Rightarrow> 'm \<Rightarrow> int \<Rightarrow> 'p \<Rightarrow> int \<Rightarrow> ('s, 'u) heuristic_class
     \<Rightarrow> 'm option \<Rightarrow> 'p option \<Rightarrow> (('s, row list) prog \<Rightarrow> ('s, 'h) prog)
     \<Rightarrow> ('h \<Rightarrow> ('s, row list) prog) \<Rightarrow> 's tskmon_client option
     \<Rightarrow> ('s, row list list) prog" where
  "perf_test_multiple E n_trials model n_particles prior n_exp heuristic_class
       true_model true_prior apply get tskmon_client =
     (let trial_fn = perf_test E model n_particles prior n_exp heuristic_class
                       true_model true_prior None
      in
        bnd (lift (np_zeros2 n_trials n_exp PERFORMANCE_DTYPE)) (\<lambda>performance.
        bnd (start_progress E model n_trials tskmon_client) (\<lambda>locals.
        bnd (dispatch apply trial_fn (nat n_trials)) (\<lambda>results.
        bnd (collect get results 0 performance locals) (\<lambda>(performance, locals).
        bnd (cleanup locals) (\<lambda>_. ret performance))))))"

text \<open>
  The default \<^verbatim>\<open>apply=apply_serial\<close>: the handle is made by the constructor of the class
  on the trial function, and \<^verbatim>\<open>get\<close> is the method of the class.
\<close>

definition apply_serial_apply ::
  "('s, row list) prog \<Rightarrow> ('s, (('s, row list) prog, unit, row list) apply_serial) prog" where
  "apply_serial_apply trial_fn = lift (apply_serial_init [trial_fn] ())"

definition apply_serial_result ::
  "(pyobj \<Rightarrow> ('s, row list) prog list \<Rightarrow> unit \<Rightarrow> ('s, row list) prog)
     \<Rightarrow> (('s, row list) prog, unit, row list) apply_serial \<Rightarrow> ('s, row list) prog" where
  "apply_serial_result call h =
     bnd (apply_serial_get call h) (\<lambda>(v, h').
       case v of
         None \<Rightarrow> lift (Inl (TypeError ''None is not a record array''))
       | Some r \<Rightarrow> ret r)"

text \<open>
  An engine that works, to run the harness with: the handle is the function itself and
  \<^verbatim>\<open>get\<close> calls it. A client whose task accepts every call.
\<close>

definition direct_apply :: "('s, row list) prog \<Rightarrow> ('s, ('s, row list) prog) prog" where
  "direct_apply trial_fn = ret trial_fn"

definition direct_get :: "('s, row list) prog \<Rightarrow> ('s, row list) prog" where
  "direct_get h = h"

definition quiet_client :: "'s tskmon_client" where
  "quiet_client =
     \<lparr>new_task = (\<lambda>description status max_progress.
        ret \<lparr>tsk_update = (\<lambda>n. ret ()), tsk_delete = ret ()\<rparr>)\<rparr>"

section \<open>The reporting thread beside the harness\<close>

text \<open>
  \<^verbatim>\<open>WebProgressThread.run\<close> executes beside the loop of \<^verbatim>\<open>perf_test_multiple\<close> that
  collects the results; the two share the thread object and its event. Each is a
  sequence of steps, one per statement that reads or writes what they share, and a run
  is an interleaving of their steps chosen by a schedule. The trials themselves are
  taken to succeed.

  The harness: the loop header with the collection of result \<^verbatim>\<open>idx\<close>, the three
  statements that report it, and after the loop the three statements of the \<^verbatim>\<open>try\<close>.
\<close>

datatype main_pc =
    MCollect | MSetProgress | MSetDirty | MSetEvent | MDone | MWake | MDelete | MReturned

text \<open>
  The thread: \<^verbatim>\<open>if self.done\<close>, \<^verbatim>\<open>if self.dirty\<close>, the call
  \<^verbatim>\<open>self._task.update(progress=self.progress)\<close>, \<^verbatim>\<open>self.dirty = False\<close>,
  \<^verbatim>\<open>self._wake_event.clear()\<close> and \<^verbatim>\<open>self._wake_event.wait()\<close>.
\<close>

datatype thread_pc =
    TCheckDone | TCheckDirty | TUpdate | TClearDirty | TClearEvent | TWait | TReturned

text \<open>
  The state of a run: what is shared, where each side is, the index of the harness's
  loop, the calls of \<^verbatim>\<open>update\<close> made so far (the progress passed, and whether the call
  returned) and the number of exceptions printed.
\<close>

record conc =
  c_shared :: WebProgressThread
  c_main :: main_pc
  c_idx :: nat
  c_thread :: thread_pc
  c_pushed :: "(int \<times> bool) list"
  c_printed :: nat

definition conc0 :: conc where
  "conc0 = \<lparr>c_shared = new_thread, c_main = MCollect, c_idx = 0, c_thread = TCheckDone,
            c_pushed = [], c_printed = 0\<rparr>"

definition main_step :: "nat \<Rightarrow> conc \<Rightarrow> conc" where
  "main_step n_trials c =
     (case c_main c of
        MCollect \<Rightarrow>
          if c_idx c < n_trials then c\<lparr>c_main := MSetProgress\<rparr> else c\<lparr>c_main := MDone\<rparr>
      | MSetProgress \<Rightarrow>
          c\<lparr>c_shared := set_progress (int (c_idx c) + 1) (c_shared c), c_main := MSetDirty\<rparr>
      | MSetDirty \<Rightarrow> c\<lparr>c_shared := set_dirty (c_shared c), c_main := MSetEvent\<rparr>
      | MSetEvent \<Rightarrow>
          c\<lparr>c_shared := event_set (c_shared c), c_main := MCollect, c_idx := Suc (c_idx c)\<rparr>
      | MDone \<Rightarrow> c\<lparr>c_shared := (c_shared c)\<lparr>thread_done := True\<rparr>, c_main := MWake\<rparr>
      | MWake \<Rightarrow> c\<lparr>c_shared := event_set (c_shared c), c_main := MDelete\<rparr>
      | MDelete \<Rightarrow> c\<lparr>c_main := MReturned\<rparr>
      | MReturned \<Rightarrow> c)"

text \<open>
  A step of the thread; \<open>ok\<close> says whether the call of \<^verbatim>\<open>update\<close>, if this step is the
  call, returns. A call that raises is caught and printed, and the thread goes on to
  wait, with \<^verbatim>\<open>dirty\<close> and the event as they were. A waiting thread moves only when the
  event is set.
\<close>

definition thread_step :: "bool \<Rightarrow> conc \<Rightarrow> conc" where
  "thread_step ok c =
     (case c_thread c of
        TCheckDone \<Rightarrow>
          if thread_done (c_shared c) then c\<lparr>c_thread := TReturned\<rparr>
          else c\<lparr>c_thread := TCheckDirty\<rparr>
      | TCheckDirty \<Rightarrow>
          if dirty (c_shared c) then c\<lparr>c_thread := TUpdate\<rparr> else c\<lparr>c_thread := TWait\<rparr>
      | TUpdate \<Rightarrow>
          if ok
          then c\<lparr>c_pushed := c_pushed c @ [(progress (c_shared c), True)],
                 c_thread := TClearDirty\<rparr>
          else c\<lparr>c_pushed := c_pushed c @ [(progress (c_shared c), False)],
                 c_printed := Suc (c_printed c), c_thread := TWait\<rparr>
      | TClearDirty \<Rightarrow> c\<lparr>c_shared := (c_shared c)\<lparr>dirty := False\<rparr>, c_thread := TClearEvent\<rparr>
      | TClearEvent \<Rightarrow>
          c\<lparr>c_shared := (c_shared c)\<lparr>wake_event_flag := False\<rparr>, c_thread := TWait\<rparr>
      | TWait \<Rightarrow> if wake_event_flag (c_shared c) then c\<lparr>c_thread := TCheckDone\<rparr> else c
      | TReturned \<Rightarrow> c)"

datatype turn = Main | Reporter bool

fun run :: "nat \<Rightarrow> turn list \<Rightarrow> conc \<Rightarrow> conc" where
  "run n_trials [] c = c"
| "run n_trials (Main # turns) c = run n_trials turns (main_step n_trials c)"
| "run n_trials (Reporter ok # turns) c = run n_trials turns (thread_step ok c)"

text \<open>What the harness's side of a run consists of.\<close>

definition main_view :: "conc \<Rightarrow> main_pc \<times> nat \<times> int" where
  "main_view c = (c_main c, c_idx c, progress (c_shared c))"

fun is_main :: "turn \<Rightarrow> bool" where
  "is_main Main = True"
| "is_main (Reporter ok) = False"

text \<open>What holds of every state a run reaches.\<close>

definition conc_inv :: "nat \<Rightarrow> conc \<Rightarrow> bool" where
  "conc_inv n_trials c =
     (c_idx c \<le> n_trials \<and>
      (c_main c \<in> {MSetProgress, MSetDirty, MSetEvent} \<longrightarrow> c_idx c < n_trials) \<and>
      progress (c_shared c)
        = (if c_main c \<in> {MSetDirty, MSetEvent} then int (c_idx c) + 1 else int (c_idx c)) \<and>
      (dirty (c_shared c) \<longrightarrow> 1 \<le> progress (c_shared c)) \<and>
      (c_thread c = TUpdate \<longrightarrow> 1 \<le> progress (c_shared c)) \<and>
      sorted (map fst (c_pushed c)) \<and>
      list_all (\<lambda>(v, ok). 1 \<le> v \<and> v \<le> progress (c_shared c)) (c_pushed c) \<and>
      c_printed c = length (filter (\<lambda>(v, ok). \<not> ok) (c_pushed c)))"

section \<open>A small environment to run the harness on\<close>

text \<open>
  The state is a counter that every effectful call advances; it serves as the clock and
  as the source of the simulated outcomes. Models and distributions are named by
  strings, updaters by numbers.
\<close>

definition toy_env :: "ndarray \<Rightarrow> (nat, string, string, nat) env" where
  "toy_env q =
     \<lparr>clock = (\<lambda>s. (real s, Suc s)),
      type_name = (\<lambda>m. m),
      expparams_dtype = (\<lambda>m. [(''t'', TFloat)]),
      Q = (\<lambda>m. q),
      simulate_experiment =
        (\<lambda>m mps e s. (Inr (if length mps = 1 then int (s mod 2) else 0), Suc s)),
      sample = (\<lambda>p s. (Inr [[0, 0]], Suc s)),
      SMCUpdater = (\<lambda>m n p s. (Inr 7, Suc s)),
      update = (\<lambda>u d e s. (Inr (), Suc s)),
      est_mean = (\<lambda>u s. (Inr [1, 2], s)),
      resample_count = (\<lambda>u s. (Inr (int s), s))\<rparr>"

definition toy_heuristic :: "(nat, nat) heuristic_class" where
  "toy_heuristic = (\<lambda>u. ret (\<lambda>s. (Inr [(''t'', FloatV (real s))], Suc s)))"

text \<open>
  The record array and the calls of one trial of one experiment in this environment,
  with \<^verbatim>\<open>Q = [1, 3]\<close> and the true parameters sampled from the prior.
\<close>

definition toy_performance :: "row list" where
  "toy_performance =
     [[(''loss'', FloatV 13), (''resample_count'', IntV 7), (''elapsed_time'', FloatV 2),
       (''outcome'', IntV 1), (''t'', FloatV 2)]]"

definition toy_events :: "(string, string, nat) event list" where
  "toy_events =
     [EvSample ''prior'' [[0, 0]], EvSMCUpdater ''model'' 10 ''prior'' 7, EvHeuristicClass 7,
      EvHeuristic [(''t'', FloatV 2)], EvSimulate ''model'' [[0, 0]] [(''t'', FloatV 2)] 1,
      EvTime 4, EvUpdate 7 1 [(''t'', FloatV 2)], EvTime 6, EvEstMean 7 [1, 2],
      EvResampleCount 7 7]"

section \<open>Properties\<close>

lemma bnd_Inr [simp]: "m s = (Inr x, s') \<Longrightarrow> bnd m f s = f x s'"
  by (simp add: bnd_def)

lemma bnd_Inl [simp]: "m s = (Inl e, s') \<Longrightarrow> bnd m f s = (Inl e, s')"
  by (simp add: bnd_def)

lemma bnd_ret [simp]: "bnd (ret x) f = f x"
  by (simp add: bnd_def ret_def)

lemma bnd_lift_Inr [simp]: "bnd (lift (Inr x)) f = f x"
  by (simp add: bnd_def lift_def)

lemma bnd_lift_Inl [simp]: "bnd (lift (Inl e)) f = lift (Inl e)"
  by (simp add: bnd_def lift_def)

lemma bnd_time_time: "bnd (time_time clk) f s = f (fst (clk s)) (snd (clk s))"
  by (simp add: bnd_def time_time_def split: prod.splits)

lemma bnd_success:
  "bnd m f s = (Inr y, s'') \<Longrightarrow> \<exists>x s'. m s = (Inr x, s') \<and> f x s' = (Inr y, s'')"
  by (auto simp: bnd_def split: prod.splits sum.splits)

subsection \<open>Successful runs of the body\<close>

lemma bnd_successE:
  assumes "bnd m f s = (Inr y, s'')"
  obtains x s' where "m s = (Inr x, s')" and "f x s' = (Inr y, s'')"
  using assms by (auto simp: bnd_def split: prod.splits sum.splits)

lemma lift_successE:
  assumes "lift r s = (Inr x, s')"
  obtains "r = Inr x" and "s' = s"
  using assms by (auto simp: lift_def)

lemma time_time_successE:
  assumes "time_time clk s = (Inr x, s')"
  obtains "clk s = (x, s')"
  using assms by (auto simp: time_time_def split: prod.splits)

lemma ret_successE:
  assumes "ret v s = (Inr x, s')"
  obtains "x = v" and "s' = s"
  using assms by (auto simp: ret_def)

lemma timing_success:
  assumes "timing clk block s = (Inr t, s')"
  obtains a s1 x s2 b where "clk s = (a, s1)" and "block \<lparr>tic = a, toc = None\<rparr> s1 = (Inr x, s2)"
    and "clk s2 = (b, s')" and "t = \<lparr>tic = a, toc = Some b\<rparr>"
  using assms unfolding timing_def Timer_def stop_def
  by (elim bnd_successE time_time_successE ret_successE) auto

lemma delta_t_stopped:
  "delta_t clk \<lparr>tic = a, toc = Some b\<rparr> s = (Inr (b - a), s)"
  by (simp add: delta_t_def ret_def)

lemma perf_test_body_success:
  assumes "perf_test_body E model tm mps u h p idx s = (Inr p', s')"
  shows "\<exists>e s1 d s2 a s2' s3 b s3' mean s4 rc loss.
     h s = (Inr e, s1) \<and>
     simulate_experiment E tm mps e s1 = (Inr d, s2) \<and>
     clock E s2 = (a, s2') \<and>
     update E u d e s2' = (Inr (), s3) \<and>
     clock E s3 = (b, s3') \<and>
     est_mean E u s3' = (Inr mean, s4) \<and>
     resample_count E u s4 = (Inr rc, s') \<and>
     compute_loss mean mps (Q E model) = Inr loss \<and>
     store_record p idx (map fst (expparams_dtype E model)) loss
       \<lparr>ob_expparams = e, ob_datum = d, ob_tic = a, ob_toc = b, ob_mean = mean,
        ob_resample_count = rc\<rparr> = Inr p'"
  using assms unfolding perf_test_body_def
  apply (elim bnd_successE timing_success lift_successE)
  apply (simp add: delta_t_stopped compute_loss_def store_record_def)
  done

lemma update_field_map:
  "update_field name v (map (\<lambda>(n, ty). (n, g n ty)) dt)
     = map (\<lambda>(n, ty). (n, if n = name then v else g n ty)) dt"
  by (induction dt) (auto simp: update_field_def)

lemma setfield_Inr:
  assumes "setfield p idx name v = Inr p'"
  shows "idx < length p \<and> name \<in> fst ` set (p ! idx) \<and> p' = p[idx := update_field name v (p ! idx)]"
  using assms by (auto simp: setfield_def split: if_splits)

lemma getfield_Inr: "getfield r name = Inr v \<Longrightarrow> map_of r name = Some v"
  by (auto simp: getfield_def split: option.splits)

lemma copy_expparams_map:
  assumes "copy_expparams p idx e names = Inr p'"
    and "p ! idx = map (\<lambda>(n, ty). (n, g n ty)) dt"
  shows "p' = p[idx := map (\<lambda>(n, ty). (n, if n \<in> set names
            then (case map_of e n of None \<Rightarrow> zero_of ty | Some v \<Rightarrow> v) else g n ty)) dt]"
  using assms
proof (induction names arbitrary: p g)
  case Nil
  then have "p' = p" and "p ! idx = map (\<lambda>(n, ty). (n, g n ty)) dt"
    by simp_all
  then have "p[idx := map (\<lambda>(n, ty). (n, g n ty)) dt] = p'"
    by (metis list_update_id)
  then show ?case by simp
next
  case (Cons name names)
  from Cons.prems(1) obtain v p1 where v: "getfield e name = Inr v"
    and p1: "setfield p idx name v = Inr p1"
    and rest: "copy_expparams p1 idx e names = Inr p'"
    by (auto split: sum.splits)
  from setfield_Inr[OF p1] have lt: "idx < length p"
    and p1eq: "p1 = p[idx := update_field name v (p ! idx)]" by auto
  have row1: "p1 ! idx = map (\<lambda>(n, ty). (n, if n = name then v else g n ty)) dt"
    using lt p1eq Cons.prems(2) by (simp add: update_field_map)
  have "p' = p1[idx := map (\<lambda>(n, ty). (n, if n \<in> set names
            then (case map_of e n of None \<Rightarrow> zero_of ty | Some v \<Rightarrow> v)
            else (if n = name then v else g n ty))) dt]"
    by (rule Cons.IH[OF rest row1])
  moreover have "map_of e name = Some v" using v by (rule getfield_Inr)
  ultimately show ?case
    using p1eq by (auto intro!: arg_cong2[where f="list_update p"] simp: fun_eq_iff)
qed

lemma store_record_zero:
  assumes st: "store_record p idx (map fst ed) loss ob = Inr p'"
    and row: "p ! idx = zero_row (PERFORMANCE_DTYPE @ ed)"
    and dist: "distinct (map fst (PERFORMANCE_DTYPE @ ed))"
  shows "p' = p[idx := performance_record ed loss ob]"
proof -
  from st obtain p1 p2 p3 p4 where
    s1: "setfield p idx ''elapsed_time'' (FloatV (ob_toc ob - ob_tic ob)) = Inr p1" and
    s2: "setfield p1 idx ''loss'' (FloatV loss) = Inr p2" and
    s3: "setfield p2 idx ''resample_count'' (IntV (ob_resample_count ob)) = Inr p3" and
    s4: "setfield p3 idx ''outcome'' (IntV (ob_datum ob)) = Inr p4" and
    cp: "copy_expparams p4 idx (ob_expparams ob) (map fst ed) = Inr p'"
    by (auto simp: store_record_def split: sum.splits)
  have r0: "p ! idx = map (\<lambda>(n, ty). (n, zero_of ty)) (PERFORMANCE_DTYPE @ ed)"
    using row by (simp add: zero_row_def)
  from setfield_Inr[OF s1] have lt: "idx < length p"
    and e1: "p1 = p[idx := update_field ''elapsed_time'' (FloatV (ob_toc ob - ob_tic ob)) (p ! idx)]"
    by auto
  from setfield_Inr[OF s2] have e2: "p2 = p1[idx := update_field ''loss'' (FloatV loss) (p1 ! idx)]"
    by auto
  from setfield_Inr[OF s3] have
    e3: "p3 = p2[idx := update_field ''resample_count'' (IntV (ob_resample_count ob)) (p2 ! idx)]"
    by auto
  from setfield_Inr[OF s4] have
    e4: "p4 = p3[idx := update_field ''outcome'' (IntV (ob_datum ob)) (p3 ! idx)]"
    by auto
  let ?D = "PERFORMANCE_DTYPE @ ed"
  let ?g1 = "\<lambda>n ty. if n = ''elapsed_time'' then FloatV (ob_toc ob - ob_tic ob) else zero_of ty"
  let ?g2 = "\<lambda>n ty. if n = ''loss'' then FloatV loss else ?g1 n ty"
  let ?g3 = "\<lambda>n ty. if n = ''resample_count'' then IntV (ob_resample_count ob) else ?g2 n ty"
  let ?g = "\<lambda>n ty. if n = ''outcome'' then IntV (ob_datum ob) else ?g3 n ty"
  have r1: "p1 ! idx = map (\<lambda>(n, ty). (n, ?g1 n ty)) ?D"
    using lt e1 r0 by (simp only: nth_list_update_eq update_field_map)
  have l1: "length p1 = length p" using e1 by simp
  have r2: "p2 ! idx = map (\<lambda>(n, ty). (n, ?g2 n ty)) ?D"
    using lt l1 e2 r1 by (simp only: nth_list_update_eq update_field_map)
  have l2: "length p2 = length p" using e2 l1 by simp
  have r3: "p3 ! idx = map (\<lambda>(n, ty). (n, ?g3 n ty)) ?D"
    using lt l2 e3 r2 by (simp only: nth_list_update_eq update_field_map)
  have l3: "length p3 = length p" using e3 l2 by simp
  have r4: "p4 ! idx = map (\<lambda>(n, ty). (n, ?g n ty)) ?D"
    using lt l3 e4 r3 by (simp only: nth_list_update_eq update_field_map)
  have p4: "p4 = p[idx := p4 ! idx]"
    using lt e1 e2 e3 e4 by simp
  have p': "p' = p4[idx := map (\<lambda>(n, ty). (n, if n \<in> set (map fst ed)
            then (case map_of (ob_expparams ob) n of None \<Rightarrow> zero_of ty | Some v \<Rightarrow> v)
            else ?g n ty)) ?D]"
    by (rule copy_expparams_map[OF cp r4])
  have "map (\<lambda>(n, ty). (n, if n \<in> set (map fst ed)
            then (case map_of (ob_expparams ob) n of None \<Rightarrow> zero_of ty | Some v \<Rightarrow> v)
            else ?g n ty)) (PERFORMANCE_DTYPE @ ed) = performance_record ed loss ob"
    using dist by (auto simp: performance_record_def PERFORMANCE_DTYPE_def rev_image_eqI)
  with p' p4 show ?thesis by (metis list_update_overwrite)
qed

subsection \<open>Runs in a recording environment\<close>

lemma logging_success:
  assumes "logging ev m (s, l) = (Inr x, sl')"
  obtains s' where "m s = (Inr x, s')" and "sl' = (s', l @ [ev x])"
  using assms by (auto simp: logging_def split: prod.splits sum.splits)

lemma logged_clock:
  "clock (logged E) (s, l) = (fst (clock E s), (snd (clock E s), l @ [EvTime (fst (clock E s))]))"
  by (simp add: logged_def split: prod.splits)

lemma logged_simps [simp]:
  "simulate_experiment (logged E) m mps e = logging (EvSimulate m mps e) (simulate_experiment E m mps e)"
  "sample (logged E) p = logging (EvSample p) (sample E p)"
  "SMCUpdater (logged E) m n p = logging (EvSMCUpdater m n p) (SMCUpdater E m n p)"
  "update (logged E) u d e = logging (\<lambda>_. EvUpdate u d e) (update E u d e)"
  "est_mean (logged E) u = logging (EvEstMean u) (est_mean E u)"
  "resample_count (logged E) u = logging (EvResampleCount u) (resample_count E u)"
  "expparams_dtype (logged E) = expparams_dtype E"
  "Q (logged E) = Q E"
  by (simp_all add: logged_def)

lemma perf_test_body_run:
  assumes "h s = (Inr e, s1)"
    and "simulate_experiment E tm mps e s1 = (Inr d, s2)"
    and "clock E s2 = (a, s2')"
    and "update E u d e s2' = (Inr (), s3)"
    and "clock E s3 = (b, s3')"
    and "est_mean E u s3' = (Inr mean, s4)"
    and "resample_count E u s4 = (Inr rc, s')"
    and "compute_loss mean mps (Q E model) = Inr loss"
    and "store_record p idx (map fst (expparams_dtype E model)) loss
       \<lparr>ob_expparams = e, ob_datum = d, ob_tic = a, ob_toc = b, ob_mean = mean,
        ob_resample_count = rc\<rparr> = Inr p'"
  shows "perf_test_body E model tm mps u h p idx s = (Inr p', s')"
proof -
  have t: "timing (clock E) (\<lambda>t. update E u d e) s2 = (Inr \<lparr>tic = a, toc = Some b\<rparr>, s3')"
    using assms(3,4,5) by (simp add: timing_def Timer_def stop_def bnd_def time_time_def ret_def)
  show ?thesis
    unfolding perf_test_body_def
    using assms(1,2,6,7,8,9) t
    by (auto simp: delta_t_stopped compute_loss_def store_record_def lift_def bnd_def
        split: sum.splits)
qed

lemma logged_body:
  assumes "perf_test_body (logged E) model tm mps u (logging EvHeuristic h) p idx (s, l)
             = (Inr p', (s', l'))"
  shows "\<exists>ob loss. l' = l @ events_of tm mps u ob \<and>
     compute_loss (ob_mean ob) mps (Q E model) = Inr loss \<and>
     store_record p idx (map fst (expparams_dtype E model)) loss ob = Inr p' \<and>
     perf_test_body E model tm mps u h p idx s = (Inr p', s')"
proof -
  from perf_test_body_success[OF assms]
  obtain e sl1 d sl2 a sl2' sl3 b sl3' mean sl4 rc loss where
    c1: "logging EvHeuristic h (s, l) = (Inr e, sl1)" and
    c2: "logging (EvSimulate tm mps e) (simulate_experiment E tm mps e) sl1 = (Inr d, sl2)" and
    c3: "clock (logged E) sl2 = (a, sl2')" and
    c4: "logging (\<lambda>_. EvUpdate u d e) (update E u d e) sl2' = (Inr (), sl3)" and
    c5: "clock (logged E) sl3 = (b, sl3')" and
    c6: "logging (EvEstMean u) (est_mean E u) sl3' = (Inr mean, sl4)" and
    c7: "logging (EvResampleCount u) (resample_count E u) sl4 = (Inr rc, (s', l'))" and
    c8: "compute_loss mean mps (Q E model) = Inr loss" and
    c9: "store_record p idx (map fst (expparams_dtype E model)) loss
       \<lparr>ob_expparams = e, ob_datum = d, ob_tic = a, ob_toc = b, ob_mean = mean,
        ob_resample_count = rc\<rparr> = Inr p'"
    by (auto simp del: split_paired_Ex)
  let ?ob = "\<lparr>ob_expparams = e, ob_datum = d, ob_tic = a, ob_toc = b, ob_mean = mean,
        ob_resample_count = rc\<rparr>"
  from c1 obtain s1 where d1: "h s = (Inr e, s1)" and q1: "sl1 = (s1, l @ [EvHeuristic e])"
    by (rule logging_success)
  from c2 q1 obtain s2 where d2: "simulate_experiment E tm mps e s1 = (Inr d, s2)"
    and q2: "sl2 = (s2, l @ [EvHeuristic e] @ [EvSimulate tm mps e d])"
    by (auto elim: logging_success)
  from c3 q2 have d3: "clock E s2 = (a, snd (clock E s2))"
    and q3: "sl2' = (snd (clock E s2), l @ [EvHeuristic e, EvSimulate tm mps e d, EvTime a])"
    by (auto simp: logged_clock)
  from c4 q3 obtain s3 where d4: "update E u d e (snd (clock E s2)) = (Inr (), s3)"
    and q4: "sl3 = (s3, l @ [EvHeuristic e, EvSimulate tm mps e d, EvTime a, EvUpdate u d e])"
    by (auto elim: logging_success)
  from c5 q4 have d5: "clock E s3 = (b, snd (clock E s3))"
    and q5: "sl3' = (snd (clock E s3),
         l @ [EvHeuristic e, EvSimulate tm mps e d, EvTime a, EvUpdate u d e, EvTime b])"
    by (auto simp: logged_clock)
  from c6 q5 obtain s4 where d6: "est_mean E u (snd (clock E s3)) = (Inr mean, s4)"
    and q6: "sl4 = (s4, l @ [EvHeuristic e, EvSimulate tm mps e d, EvTime a, EvUpdate u d e,
         EvTime b, EvEstMean u mean])"
    by (auto elim: logging_success)
  from c7 q6 have d7: "resample_count E u s4 = (Inr rc, s')"
    and q7: "l' = l @ [EvHeuristic e, EvSimulate tm mps e d, EvTime a, EvUpdate u d e,
         EvTime b, EvEstMean u mean, EvResampleCount u rc]"
    by (auto elim: logging_success)
  have "l' = l @ events_of tm mps u ?ob" using q7 by (simp add: events_of_def)
  moreover have "perf_test_body E model tm mps u h p idx s = (Inr p', s')"
    by (rule perf_test_body_run[where h=h and s=s, OF d1 d2 d3 d4 d5 d6 d7 c8 c9])
  ultimately show ?thesis using c8 c9 by (intro exI[of _ ?ob] exI[of _ loss]) simp
qed

lemma copy_expparams_present:
  "copy_expparams p idx e names = Inr p' \<Longrightarrow> \<forall>n\<in>set names. map_of e n \<noteq> None"
  by (induction names arbitrary: p) (auto split: sum.splits dest: getfield_Inr)

lemma store_record_present:
  "store_record p idx names loss ob = Inr p' \<Longrightarrow> \<forall>n\<in>set names. map_of (ob_expparams ob) n \<noteq> None"
  by (auto simp: store_record_def split: sum.splits dest!: copy_expparams_present)

lemma logged_loop:
  assumes "perf_test_loop (logged E) model tm mps u (logging EvHeuristic h) idxs p (s, l)
             = (Inr p', (s', l'))"
    and "distinct idxs"
    and "\<forall>j\<in>set idxs. p ! j = zero_row (PERFORMANCE_DTYPE @ expparams_dtype E model)"
    and "distinct (map fst (PERFORMANCE_DTYPE @ expparams_dtype E model))"
  shows "\<exists>ols. length ols = length idxs \<and>
     l' = l @ concat (map (\<lambda>(ob, loss). events_of tm mps u ob) ols) \<and>
     length p' = length p \<and>
     (\<forall>i<length idxs. p' ! (idxs ! i)
         = performance_record (expparams_dtype E model) (snd (ols ! i)) (fst (ols ! i))) \<and>
     (\<forall>j. j \<notin> set idxs \<longrightarrow> p' ! j = p ! j) \<and>
     (\<forall>(ob, loss)\<in>set ols. compute_loss (ob_mean ob) mps (Q E model) = Inr loss \<and>
         (\<forall>n\<in>set (map fst (expparams_dtype E model)). map_of (ob_expparams ob) n \<noteq> None)) \<and>
     perf_test_loop E model tm mps u h idxs p s = (Inr p', s')"
  using assms
proof (induction idxs arbitrary: p s l)
  case Nil
  then show ?case by (auto simp: ret_def)
next
  case (Cons idx idxs)
  let ?ed = "expparams_dtype E model"
  from Cons.prems(1) obtain p1 sl1 where
    b: "perf_test_body (logged E) model tm mps u (logging EvHeuristic h) p idx (s, l) = (Inr p1, sl1)"
    and r: "perf_test_loop (logged E) model tm mps u (logging EvHeuristic h) idxs p1 sl1
             = (Inr p', (s', l'))"
    by (auto elim: bnd_successE)
  obtain s1 l1 where sl1: "sl1 = (s1, l1)" by (cases sl1)
  from logged_body[OF b[unfolded sl1]] obtain ob loss where
    l1: "l1 = l @ events_of tm mps u ob" and
    cl: "compute_loss (ob_mean ob) mps (Q E model) = Inr loss" and
    st: "store_record p idx (map fst ?ed) loss ob = Inr p1" and
    ub: "perf_test_body E model tm mps u h p idx s = (Inr p1, s1)"
    by blast
  have row: "p ! idx = zero_row (PERFORMANCE_DTYPE @ ?ed)" using Cons.prems(3) by simp
  have p1: "p1 = p[idx := performance_record ?ed loss ob]"
    by (rule store_record_zero[OF st row Cons.prems(4)])
  have lt: "idx < length p"
    using st by (auto simp: store_record_def split: sum.splits dest: setfield_Inr)
  have notin: "idx \<notin> set idxs" and dist: "distinct idxs" using Cons.prems(2) by auto
  have zeros: "\<forall>j\<in>set idxs. p1 ! j = zero_row (PERFORMANCE_DTYPE @ ?ed)"
    using Cons.prems(3) notin p1 by (metis list.set_intros(2) nth_list_update_neq)
  from Cons.IH[OF r[unfolded sl1] dist zeros Cons.prems(4)] obtain ols where
    i1: "length ols = length idxs" and
    i2: "l' = l1 @ concat (map (\<lambda>(ob, loss). events_of tm mps u ob) ols)" and
    i3: "length p' = length p1" and
    i4: "\<forall>i<length idxs. p' ! (idxs ! i) = performance_record ?ed (snd (ols ! i)) (fst (ols ! i))" and
    i5: "\<forall>j. j \<notin> set idxs \<longrightarrow> p' ! j = p1 ! j" and
    i6: "\<forall>(ob, loss)\<in>set ols. compute_loss (ob_mean ob) mps (Q E model) = Inr loss \<and>
         (\<forall>n\<in>set (map fst (expparams_dtype E model)). map_of (ob_expparams ob) n \<noteq> None)" and
    i7: "perf_test_loop E model tm mps u h idxs p1 s1 = (Inr p', s')"
    by blast
  let ?ols = "(ob, loss) # ols"
  have "length ?ols = length (idx # idxs)" using i1 by simp
  moreover have "l' = l @ concat (map (\<lambda>(ob, loss). events_of tm mps u ob) ?ols)"
    using i2 l1 by simp
  moreover have "length p' = length p" using i3 p1 by simp
  moreover have "\<forall>i<length (idx # idxs). p' ! ((idx # idxs) ! i)
       = performance_record ?ed (snd (?ols ! i)) (fst (?ols ! i))"
  proof (intro allI impI)
    fix i assume "i < length (idx # idxs)"
    then show "p' ! ((idx # idxs) ! i) = performance_record ?ed (snd (?ols ! i)) (fst (?ols ! i))"
      using i4 i5 notin p1 lt by (cases i) auto
  qed
  moreover have "\<forall>j. j \<notin> set (idx # idxs) \<longrightarrow> p' ! j = p ! j"
    using i5 p1 by auto
  moreover have "\<forall>(ob, loss)\<in>set ?ols. compute_loss (ob_mean ob) mps (Q E model) = Inr loss \<and>
         (\<forall>n\<in>set (map fst (expparams_dtype E model)). map_of (ob_expparams ob) n \<noteq> None)"
    using i6 cl store_record_present[OF st] by auto
  moreover have "perf_test_loop E model tm mps u h (idx # idxs) p s = (Inr p', s')"
    using ub i7 by simp
  ultimately show ?case by blast
qed

lemma np_zeros_Inr:
  assumes "np_zeros n dt = Inr p"
  shows "p = replicate n (zero_row dt) \<and> distinct (map fst dt)"
  using assms by (auto simp: np_zeros_def split: if_splits)

lemma perf_test_logged:
  fixes E :: "('s, 'm, 'p, 'u) env"
  assumes run: "perf_test (logged E) model n_particles prior n_exp (logged_heuristic_class hc)
                  true_model true_prior true_mps (s0, l0) = (Inr perf, (s', evs))"
  shows "\<exists>mps u ols. 0 \<le> n_exp \<and> length ols = nat n_exp \<and>
     (case true_mps of None \<Rightarrow> True | Some m \<Rightarrow> mps = m) \<and>
     evs = l0 @ (case true_mps of
                  None \<Rightarrow> [EvSample (case true_prior of None \<Rightarrow> prior | Some p \<Rightarrow> p) mps]
                | Some m \<Rightarrow> [])
           @ [EvSMCUpdater model n_particles prior u, EvHeuristicClass u]
           @ concat (map (\<lambda>(ob, loss).
                events_of (case true_model of None \<Rightarrow> model | Some m \<Rightarrow> m) mps u ob) ols) \<and>
     perf = map (\<lambda>(ob, loss). performance_record (expparams_dtype E model) loss ob) ols \<and>
     (\<forall>(ob, loss)\<in>set ols. compute_loss (ob_mean ob) mps (Q E model) = Inr loss \<and>
         (\<forall>n\<in>set (map fst (expparams_dtype E model)). map_of (ob_expparams ob) n \<noteq> None)) \<and>
     perf_test E model n_particles prior n_exp hc true_model true_prior true_mps s0
       = (Inr perf, s')"
proof -
  let ?tm = "case true_model of None \<Rightarrow> model | Some m \<Rightarrow> m"
  let ?tp = "case true_prior of None \<Rightarrow> prior | Some p \<Rightarrow> p"
  let ?ed = "expparams_dtype E model"
  let ?D = "PERFORMANCE_DTYPE @ ?ed"
  let ?pre = "case true_mps of None \<Rightarrow> logging (EvSample ?tp) (sample E ?tp)
              | Some mps \<Rightarrow> ret mps"
  from run obtain mps sl1 p0 sl1' u sl2 h' sl3 where
    a1': "(case true_mps of None \<Rightarrow> sample (logged E) ?tp | Some mps \<Rightarrow> ret mps) (s0, l0)
           = (Inr mps, sl1)" and
    a2': "lift (if n_exp < 0 then Inl (ValueError ''negative dimensions are not allowed'')
               else np_zeros (nat n_exp) (PERFORMANCE_DTYPE @ expparams_dtype (logged E) model))
            sl1 = (Inr p0, sl1')" and
    a3': "SMCUpdater (logged E) model n_particles prior sl1' = (Inr u, sl2)" and
    a4: "logged_heuristic_class hc u sl2 = (Inr h', sl3)" and
    a5: "perf_test_loop (logged E) model ?tm mps u h' [0..<nat n_exp] p0 sl3
           = (Inr perf, (s', evs))"
    unfolding perf_test_def Let_def
    by (elim bnd_successE) blast
  from a1' have a1: "?pre (s0, l0) = (Inr mps, sl1)" by (simp only: logged_simps)
  from a2' have a2: "lift (if n_exp < 0 then Inl (ValueError ''negative dimensions are not allowed'')
               else np_zeros (nat n_exp) ?D) sl1 = (Inr p0, sl1')" by (simp only: logged_simps)
  from a3' have a3: "logging (EvSMCUpdater model n_particles prior)
       (SMCUpdater E model n_particles prior) sl1' = (Inr u, sl2)" by simp
  let ?l1 = "l0 @ (case true_mps of None \<Rightarrow> [EvSample ?tp mps] | Some m \<Rightarrow> [])"
  from a1 obtain s1 where
    b1: "(case true_mps of None \<Rightarrow> sample E ?tp | Some mps \<Rightarrow> ret mps) s0 = (Inr mps, s1)"
    and q1: "sl1 = (s1, ?l1)" and m1: "case true_mps of None \<Rightarrow> True | Some m \<Rightarrow> mps = m"
    by (cases true_mps) (auto elim: logging_success simp: ret_def)
  from a2 have nonneg: "0 \<le> n_exp" and z: "np_zeros (nat n_exp) ?D = Inr p0" and q1': "sl1' = sl1"
    by (auto elim!: lift_successE split: if_splits)
  from np_zeros_Inr[OF z] have p0: "p0 = replicate (nat n_exp) (zero_row ?D)"
    and dist: "distinct (map fst ?D)" by auto
  from a3 q1 q1' obtain s2 where b3: "SMCUpdater E model n_particles prior s1 = (Inr u, s2)"
    and q2: "sl2 = (s2, ?l1 @ [EvSMCUpdater model n_particles prior u])"
    by (auto elim: logging_success)
  from a4 q2 obtain h s3 where b4: "hc u s2 = (Inr h, s3)"
    and q3: "sl3 = (s3, ?l1 @ [EvSMCUpdater model n_particles prior u, EvHeuristicClass u])"
    and h': "h' = logging EvHeuristic h"
    unfolding logged_heuristic_class_def
    by (elim bnd_successE ret_successE) (auto elim: logging_success)
  have zeros: "\<forall>j\<in>set [0..<nat n_exp]. p0 ! j = zero_row ?D" using p0 by simp
  from logged_loop[OF a5[unfolded h' q3] distinct_upt zeros dist] obtain ols where
    i1: "length ols = nat n_exp" and
    i2: "evs = (?l1 @ [EvSMCUpdater model n_particles prior u, EvHeuristicClass u])
             @ concat (map (\<lambda>(ob, loss). events_of ?tm mps u ob) ols)" and
    i3: "length perf = length p0" and
    i4: "\<forall>i<nat n_exp. perf ! ([0..<nat n_exp] ! i)
           = performance_record ?ed (snd (ols ! i)) (fst (ols ! i))" and
    i6: "\<forall>(ob, loss)\<in>set ols. compute_loss (ob_mean ob) mps (Q E model) = Inr loss \<and>
         (\<forall>n\<in>set (map fst (expparams_dtype E model)). map_of (ob_expparams ob) n \<noteq> None)" and
    i7: "perf_test_loop E model ?tm mps u h [0..<nat n_exp] p0 s3 = (Inr perf, s')"
    by auto
  have perf: "perf = map (\<lambda>(ob, loss). performance_record ?ed loss ob) ols"
  proof (rule nth_equalityI)
    show "length perf = length (map (\<lambda>(ob, loss). performance_record ?ed loss ob) ols)"
      using i3 p0 i1 by simp
  next
    fix i assume "i < length perf"
    then have lt: "i < nat n_exp" using i3 p0 by simp
    then have "perf ! i = performance_record ?ed (snd (ols ! i)) (fst (ols ! i))"
      using i4 by simp
    then show "perf ! i = map (\<lambda>(ob, loss). performance_record ?ed loss ob) ols ! i"
      using lt i1 by (simp add: case_prod_unfold)
  qed
  have unlogged: "perf_test E model n_particles prior n_exp hc true_model true_prior true_mps s0
       = (Inr perf, s')"
    unfolding perf_test_def Let_def
    using b1 nonneg z b3 b4 i7 by (simp add: lift_def bnd_def)
  show ?thesis
    using nonneg i1 m1 i2 perf i6 unlogged
    by (intro exI[of _ mps] exI[of _ u] exI[of _ ols]) simp
qed

subsection \<open>The arithmetic of the loss\<close>









subsection \<open>Evaluating runs in the small environment\<close>

lemma bnd_apply:
  "bnd m f s = (case m s of (Inl e, s') \<Rightarrow> (Inl e, s') | (Inr x, s') \<Rightarrow> f x s')"
  by (simp add: bnd_def)

lemma ret_apply: "ret x s = (Inr x, s)"
  by (simp add: ret_def)

lemma lift_apply: "lift r s = (r, s)"
  by (simp add: lift_def)

lemma time_time_apply: "time_time clk s = (Inr (fst (clk s)), snd (clk s))"
  by (simp add: time_time_def split: prod.splits)

lemma logging_apply:
  "logging ev m (s, l) =
     (case m s of (Inl e, s') \<Rightarrow> (Inl e, (s', l)) | (Inr x, s') \<Rightarrow> (Inr x, (s', l @ [ev x])))"
  by (simp add: logging_def)

lemma toy_env_simps:
  "clock (toy_env q) s = (real s, Suc s)"
  "type_name (toy_env q) m = m"
  "expparams_dtype (toy_env q) m = [(''t'', TFloat)]"
  "Q (toy_env q) m = q"
  "simulate_experiment (toy_env q) m mps e s
     = (Inr (if length mps = 1 then int (s mod 2) else 0), Suc s)"
  "sample (toy_env q) p s = (Inr [[0, 0]], Suc s)"
  "SMCUpdater (toy_env q) m n p s = (Inr 7, Suc s)"
  "update (toy_env q) u d e s = (Inr (), Suc s)"
  "est_mean (toy_env q) u s = (Inr [1, 2], s)"
  "resample_count (toy_env q) u s = (Inr (int s), s)"
  by (simp_all add: toy_env_def)

lemma toy_heuristic_apply:
  "toy_heuristic u s = (Inr (\<lambda>s. (Inr [(''t'', FloatV (real s))], Suc s)), s)"
  by (simp add: toy_heuristic_def ret_def)

lemmas run_simps =
  perf_test_def perf_test_body_def Let_def bnd_apply ret_apply lift_apply time_time_apply
  logging_apply logged_clock logged_simps logged_heuristic_class_def toy_env_simps
  toy_heuristic_apply timing_def Timer_def stop_def delta_t_def
  np_zeros_def PERFORMANCE_DTYPE_def zero_row_def setfield_def getfield_def update_field_def
  broadcast_sub_def np_square_def inner_def columns_def

lemma toy_run:
  "perf_test (logged (toy_env (Vec [1, 3]))) ''model'' 10 ''prior'' 1
      (logged_heuristic_class toy_heuristic) None None None (0, [])
   = (Inr toy_performance, (7, toy_events))"
  by (simp add: run_simps toy_performance_def toy_events_def)

subsection \<open>The claims\<close>

text \<open>
  C1. The default apply of \<^verbatim>\<open>perf_test_multiple\<close> is \<^verbatim>\<open>apply_serial\<close>. Constructing the
  handle never succeeds: for every argument list and keyword arguments the constructor
  raises \<^verbatim>\<open>NameError\<close> for the name \<^verbatim>\<open>fn\<close>, which its signature does not bind.
\<close>

theorem apply_serial_init_NameError:
  "apply_serial_init args kwargs = Inl (NameError ''fn'')"
  by (simp add: apply_serial_init_def load_global_def module_globals_def)

text \<open>
  C10. A timer created at state \<open>s0\<close> and stopped at state \<open>s2\<close> reads, from then on and in
  every state, the clk at \<open>s2\<close> minus the clk at \<open>s0\<close>, and reading it leaves the state
  alone. A \<^verbatim>\<open>with timing()\<close> block that ends normally yields a timer stopped at the state
  the block ended in, so its reading is the clk at block exit minus the clk at
  block entry, the same at every later read.
\<close>

theorem Timer_delta_t_frozen:
  "(Timer clk s0 = (Inr t, s1) \<and> stop clk t s2 = (Inr t', s3) \<longrightarrow>
      (\<forall>s. delta_t clk t' s = (Inr (fst (clk s2) - fst (clk s0)), s))) \<and>
   (timing clk block s0 = (Inr t'', s') \<longrightarrow>
      (\<exists>t x s1 s2. Timer clk s0 = (Inr t, s1) \<and> block t s1 = (Inr x, s2) \<and>
          stop clk t s2 = (Inr t'', s') \<and>
          (\<forall>s. delta_t clk t'' s = (Inr (fst (clk s2) - fst (clk s0)), s))))"
proof (intro conjI impI)
  assume a: "Timer clk s0 = (Inr t, s1) \<and> stop clk t s2 = (Inr t', s3)"
  then have "tic t = fst (clk s0)" "toc t' = Some (fst (clk s2))" "tic t' = tic t"
    by (auto simp: Timer_def stop_def bnd_time_time ret_def)
  then show "\<forall>s. delta_t clk t' s = (Inr (fst (clk s2) - fst (clk s0)), s)"
    by (simp add: delta_t_def ret_def)
next
  assume a: "timing clk block s0 = (Inr t'', s')"
  then obtain t s1 where t: "Timer clk s0 = (Inr t, s1)"
    and r: "bnd (block t) (\<lambda>_. stop clk t) s1 = (Inr t'', s')"
    unfolding timing_def by (blast dest: bnd_success)
  from r obtain x s2 where b: "block t s1 = (Inr x, s2)"
    and st: "stop clk t s2 = (Inr t'', s')"
    by (blast dest: bnd_success)
  from t st have "tic t = fst (clk s0)" "toc t'' = Some (fst (clk s2))" "tic t'' = tic t"
    by (auto simp: Timer_def stop_def bnd_time_time ret_def)
  then have "\<forall>s. delta_t clk t'' s = (Inr (fst (clk s2) - fst (clk s0)), s)"
    by (simp add: delta_t_def ret_def)
  with t b st show "\<exists>t x s1 s2. Timer clk s0 = (Inr t, s1) \<and> block t s1 = (Inr x, s2) \<and>
          stop clk t s2 = (Inr t'', s') \<and>
          (\<forall>s. delta_t clk t'' s = (Inr (fst (clk s2) - fst (clk s0)), s))"
    by blast
qed

theorem Timer_delta_t_frozen_witness:
  "Timer (\<lambda>s::real. (s, s + 1)) 0 = (Inr \<lparr>tic = 0, toc = None\<rparr>, 1) \<and>
   stop (\<lambda>s::real. (s, s + 1)) \<lparr>tic = 0, toc = None\<rparr> 5 = (Inr \<lparr>tic = 0, toc = Some 5\<rparr>, 6) \<and>
   (\<forall>s. delta_t (\<lambda>s::real. (s, s + 1)) \<lparr>tic = 0, toc = Some 5\<rparr> s = (Inr 5, s)) \<and>
   timing (\<lambda>s::real. (s, s + 1)) (\<lambda>t. ret ()) 0 = (Inr \<lparr>tic = 0, toc = Some 1\<rparr>, 2) \<and>
   (\<forall>s. delta_t (\<lambda>s::real. (s, s + 1)) \<lparr>tic = 0, toc = Some 1\<rparr> s = (Inr 1, s))"
  using Timer_delta_t_frozen [of "\<lambda>s::real. (s, s + 1)" 0 "\<lparr>tic = 0, toc = None\<rparr>" 1 5
      "\<lparr>tic = 0, toc = Some 5\<rparr>" 6 "\<lambda>t. ret ()" "\<lparr>tic = 0, toc = Some 1\<rparr>" 2]
  by (simp add: Timer_def stop_def timing_def bnd_def ret_def time_time_def)

text \<open>
  C7. In a run of \<^verbatim>\<open>perf_test\<close> that returns, the calls the harness makes are, in this
  order: the sampling of the true parameters when none are supplied; the construction
  of the updater from the inference model, the particle count and the prior; the
  construction of the heuristic from that updater; and then, once per experiment, the
  heuristic call, the simulation by the true model on the true parameters and the
  heuristic's experiment parameters, the clock, the update with that outcome and those
  experiment parameters, the clock, and the reads of the posterior mean and of the
  resample count, from which the loss and the record are computed. Recording the
  calls does not change the run.
\<close>

theorem perf_test_call_order:
  assumes "perf_test (logged E) model n_particles prior n_exp
             (logged_heuristic_class heuristic_class) true_model true_prior true_mps (s0, [])
           = (Inr performance, (s', evs))"
  shows "\<exists>mps updater obs.
     length obs = nat n_exp \<and>
     (case true_mps of None \<Rightarrow> True | Some m \<Rightarrow> mps = m) \<and>
     evs = (case true_mps of
              None \<Rightarrow> [EvSample (case true_prior of None \<Rightarrow> prior | Some p \<Rightarrow> p) mps]
            | Some m \<Rightarrow> [])
           @ [EvSMCUpdater model n_particles prior updater, EvHeuristicClass updater]
           @ concat (map (events_of (case true_model of None \<Rightarrow> model | Some m \<Rightarrow> m)
                            mps updater) obs) \<and>
     list_all (\<lambda>ob. \<exists>loss. compute_loss (ob_mean ob) mps (Q E model) = Inr loss) obs \<and>
     perf_test E model n_particles prior n_exp heuristic_class true_model true_prior true_mps s0
       = (Inr performance, s')"
proof -
  from perf_test_logged[OF assms] obtain mps u ols where
    len: "length ols = nat n_exp" and
    m: "case true_mps of None \<Rightarrow> True | Some m \<Rightarrow> mps = m" and
    evs: "evs = [] @ (case true_mps of
                  None \<Rightarrow> [EvSample (case true_prior of None \<Rightarrow> prior | Some p \<Rightarrow> p) mps]
                | Some m \<Rightarrow> [])
           @ [EvSMCUpdater model n_particles prior u, EvHeuristicClass u]
           @ concat (map (\<lambda>(ob, loss).
                events_of (case true_model of None \<Rightarrow> model | Some m \<Rightarrow> m) mps u ob) ols)" and
    cl: "\<forall>(ob, loss)\<in>set ols. compute_loss (ob_mean ob) mps (Q E model) = Inr loss \<and>
         (\<forall>n\<in>set (map fst (expparams_dtype E model)). map_of (ob_expparams ob) n \<noteq> None)" and
    un: "perf_test E model n_particles prior n_exp heuristic_class true_model true_prior true_mps s0
       = (Inr performance, s')"
    by blast
  let ?tm = "case true_model of None \<Rightarrow> model | Some m \<Rightarrow> m"
  have ev_eq: "concat (map (\<lambda>(ob, loss). events_of ?tm mps u ob) ols)
      = concat (map (events_of ?tm mps u) (map fst ols))"
    by (induction ols) auto
  have e2: "evs = (case true_mps of
              None \<Rightarrow> [EvSample (case true_prior of None \<Rightarrow> prior | Some p \<Rightarrow> p) mps]
            | Some m \<Rightarrow> [])
           @ [EvSMCUpdater model n_particles prior u, EvHeuristicClass u]
           @ concat (map (events_of ?tm mps u) (map fst ols))"
    using evs ev_eq by simp
  have l2: "length (map fst ols) = nat n_exp" using len by simp
  have la: "list_all (\<lambda>ob. \<exists>loss. compute_loss (ob_mean ob) mps (Q E model) = Inr loss)
      (map fst ols)"
    using cl by (auto simp: list_all_iff)
  show ?thesis using l2 m e2 la un by blast
qed

theorem perf_test_call_order_witness:
  "perf_test (logged (toy_env (Vec [1, 3]))) ''model'' 10 ''prior'' 1
      (logged_heuristic_class toy_heuristic) None None None (0, [])
   = (Inr toy_performance, (7, toy_events)) \<and>
   (\<exists>mps updater obs.
     length obs = nat 1 \<and>
     (case None :: real list list option of None \<Rightarrow> True | Some m \<Rightarrow> mps = m) \<and>
     toy_events = (case None :: real list list option of
              None \<Rightarrow> [EvSample (case None of None \<Rightarrow> ''prior'' | Some p \<Rightarrow> p) mps]
            | Some m \<Rightarrow> [])
           @ [EvSMCUpdater ''model'' 10 ''prior'' updater, EvHeuristicClass updater]
           @ concat (map (events_of (case None of None \<Rightarrow> ''model'' | Some m \<Rightarrow> m)
                            mps updater) obs) \<and>
     list_all (\<lambda>ob. \<exists>loss. compute_loss (ob_mean ob) mps (Q (toy_env (Vec [1, 3])) ''model'')
                = Inr loss) obs \<and>
     perf_test (toy_env (Vec [1, 3])) ''model'' 10 ''prior'' 1 toy_heuristic None None None 0
       = (Inr toy_performance, 7))"
  by (rule conjI[OF toy_run perf_test_call_order[OF toy_run]])








lemma store_record_length:
  assumes "store_record p idx names loss ob = Inr p'"
  shows "idx < length p"
  using assms by (auto simp: store_record_def split: sum.splits dest: setfield_Inr)







lemma np_subtract_same_length:
  "list_all (\<lambda>r. length r = length a) rs \<Longrightarrow> np_subtract a rs = Inr (map (\<lambda>r. map2 (-) a r) rs)"
  by (induction rs) (auto simp: broadcast_sub_def)

lemma to_scalar_long:
  "1 < length xs \<Longrightarrow> to_scalar (Vec xs) = Inl (ValueError ''setting an array element with a sequence.'')"
proof (cases xs)
  case Nil
  then show "1 < length xs \<Longrightarrow> ?thesis" by simp
next
  case (Cons x ys)
  then show "1 < length xs \<Longrightarrow> ?thesis" by (cases ys) auto
qed

lemma compute_loss_many_rows:
  assumes "1 < length mps" and "list_all (\<lambda>r. length r = length mean) mps"
    and "length q = length mean"
  shows "\<exists>delta d. np_subtract mean mps = Inr delta \<and> np_dot (np_square delta) (Vec q) = Inr d \<and>
     to_scalar d = Inl (ValueError ''setting an array element with a sequence.'')"
proof -
  let ?delta = "map (\<lambda>r. map2 (-) mean r) mps"
  have s: "np_subtract mean mps = Inr ?delta"
    using assms(2) by (rule np_subtract_same_length)
  have "list_all (\<lambda>r. length r = length q) (np_square ?delta)"
    using assms(2,3) by (auto simp: np_square_def list_all_iff)
  then have d: "np_dot (np_square ?delta) (Vec q)
        = Inr (Vec (map (\<lambda>r. inner r q) (np_square ?delta)))"
    by simp
  have "to_scalar (Vec (map (\<lambda>r. inner r q) (np_square ?delta)))
      = Inl (ValueError ''setting an array element with a sequence.'')"
    using assms(1) by (intro to_scalar_long) (simp add: np_square_def)
  with s d show ?thesis by blast
qed

lemma setfield_zero_row:
  assumes "idx < n" and "name \<in> set (map fst dt)"
  shows "\<exists>p'. setfield (replicate n (zero_row dt)) idx name v = Inr p'"
proof -
  have "map fst (zero_row dt) = map fst dt"
    by (induction dt) (auto simp: zero_row_def)
  then show ?thesis using assms by (simp add: setfield_def)
qed

lemma logged_body_many_rows:
  assumes "h s2 = (Inr e, s3)"
    and "simulate_experiment E tm mps e s3 = (Inr d, s4)"
    and "update E u d e (snd (clock E s4)) = (Inr (), s5)"
    and "est_mean E u (snd (clock E s5)) = (Inr mean, s6)"
    and "1 < length mps" and "list_all (\<lambda>r. length r = length mean) mps"
    and "Q E model = Vec q" and "length q = length mean"
    and "setfield p idx ''elapsed_time'' (FloatV (fst (clock E s5) - fst (clock E s4))) = Inr p'"
  shows "perf_test_body (logged E) model tm mps u (logging EvHeuristic h) p idx (s2, l)
     = (Inl (ValueError ''setting an array element with a sequence.''),
        (s6, l @ [EvHeuristic e, EvSimulate tm mps e d, EvTime (fst (clock E s4)),
                  EvUpdate u d e, EvTime (fst (clock E s5)), EvEstMean u mean]))"
proof -
  from compute_loss_many_rows[OF assms(5,6,8)] obtain delta dd where
    a: "np_subtract mean mps = Inr delta" and
    b: "np_dot (np_square delta) (Vec q) = Inr dd" and
    c: "to_scalar dd = Inl (ValueError ''setting an array element with a sequence.'')"
    by blast
  show ?thesis
    unfolding perf_test_body_def
    using assms(1,2,3,4,7,9) a b c
    by (simp add: bnd_apply logging_apply logged_clock lift_apply ret_apply time_time_apply
        timing_def Timer_def stop_def delta_t_def)
qed

text \<open>
  C3, as the code has it. \<^verbatim>\<open>perf_test\<close> has no check of the shape of \<^verbatim>\<open>true_mps\<close>.
  With no experiments it returns an empty array for every \<^verbatim>\<open>true_mps\<close>. With at least
  one experiment and true parameters of more than one row (each as long as the
  posterior mean and the vector \<^verbatim>\<open>Q\<close>), the heuristic call, the simulation and the update
  of the first experiment are made and the posterior mean is read; \<^verbatim>\<open>ValueError\<close> is
  raised only then, when the loss, an array with one entry per row, is stored into the
  float field.
\<close>

theorem perf_test_no_shape_check:
  "(distinct (map fst (PERFORMANCE_DTYPE @ expparams_dtype E model)) \<and>
    SMCUpdater E model n_particles prior s0 = (Inr u, s1) \<and>
    heuristic_class u s1 = (Inr h, s2)
    \<longrightarrow> perf_test (logged E) model n_particles prior 0 (logged_heuristic_class heuristic_class)
          true_model true_prior (Some mps) (s0, [])
        = (Inr [], (s2, [EvSMCUpdater model n_particles prior u, EvHeuristicClass u]))) \<and>
   (0 < n_exp \<and> 1 < length mps \<and> list_all (\<lambda>r. length r = length mean) mps \<and>
    Q E model = Vec q \<and> length q = length mean \<and>
    distinct (map fst (PERFORMANCE_DTYPE @ expparams_dtype E model)) \<and>
    SMCUpdater E model n_particles prior s0 = (Inr u, s1) \<and>
    heuristic_class u s1 = (Inr h, s2) \<and>
    h s2 = (Inr e, s3) \<and>
    simulate_experiment E (case true_model of None \<Rightarrow> model | Some m \<Rightarrow> m) mps e s3 = (Inr d, s4) \<and>
    update E u d e (snd (clock E s4)) = (Inr (), s5) \<and>
    est_mean E u (snd (clock E s5)) = (Inr mean, s6)
    \<longrightarrow> perf_test (logged E) model n_particles prior n_exp (logged_heuristic_class heuristic_class)
          true_model true_prior (Some mps) (s0, [])
        = (Inl (ValueError ''setting an array element with a sequence.''),
           (s6, [EvSMCUpdater model n_particles prior u, EvHeuristicClass u,
                 EvHeuristic e,
                 EvSimulate (case true_model of None \<Rightarrow> model | Some m \<Rightarrow> m) mps e d,
                 EvTime (fst (clock E s4)), EvUpdate u d e, EvTime (fst (clock E s5)),
                 EvEstMean u mean])))"
proof (intro conjI impI)
  assume a: "distinct (map fst (PERFORMANCE_DTYPE @ expparams_dtype E model)) \<and>
    SMCUpdater E model n_particles prior s0 = (Inr u, s1) \<and>
    heuristic_class u s1 = (Inr h, s2)"
  then show "perf_test (logged E) model n_particles prior 0 (logged_heuristic_class heuristic_class)
          true_model true_prior (Some mps) (s0, [])
        = (Inr [], (s2, [EvSMCUpdater model n_particles prior u, EvHeuristicClass u]))"
    by (simp add: perf_test_def Let_def bnd_apply ret_apply lift_apply logging_apply
        logged_heuristic_class_def np_zeros_def)
next
  let ?tm = "case true_model of None \<Rightarrow> model | Some m \<Rightarrow> m"
  let ?D = "PERFORMANCE_DTYPE @ expparams_dtype E model"
  assume a: "0 < n_exp \<and> 1 < length mps \<and> list_all (\<lambda>r. length r = length mean) mps \<and>
    Q E model = Vec q \<and> length q = length mean \<and>
    distinct (map fst ?D) \<and>
    SMCUpdater E model n_particles prior s0 = (Inr u, s1) \<and>
    heuristic_class u s1 = (Inr h, s2) \<and>
    h s2 = (Inr e, s3) \<and>
    simulate_experiment E ?tm mps e s3 = (Inr d, s4) \<and>
    update E u d e (snd (clock E s4)) = (Inr (), s5) \<and>
    est_mean E u (snd (clock E s5)) = (Inr mean, s6)"
  let ?p = "replicate (nat n_exp) (zero_row ?D)"
  from a have pos: "0 < nat n_exp" by simp
  have "''elapsed_time'' \<in> set (map fst ?D)" by (simp add: PERFORMANCE_DTYPE_def)
  from setfield_zero_row[OF pos this] obtain p' where
    sf: "setfield ?p 0 ''elapsed_time'' (FloatV (fst (clock E s5) - fst (clock E s4))) = Inr p'"
    by blast
  from a have h1: "h s2 = (Inr e, s3)"
    and h2: "simulate_experiment E ?tm mps e s3 = (Inr d, s4)"
    and h3: "update E u d e (snd (clock E s4)) = (Inr (), s5)"
    and h4: "est_mean E u (snd (clock E s5)) = (Inr mean, s6)"
    and h5: "1 < length mps" and h6: "list_all (\<lambda>r. length r = length mean) mps"
    and h7: "Q E model = Vec q" and h8: "length q = length mean"
    by simp_all
  have body: "perf_test_body (logged E) model ?tm mps u (logging EvHeuristic h) ?p 0
        (s2, [EvSMCUpdater model n_particles prior u, EvHeuristicClass u])
     = (Inl (ValueError ''setting an array element with a sequence.''),
        (s6, [EvSMCUpdater model n_particles prior u, EvHeuristicClass u]
             @ [EvHeuristic e, EvSimulate ?tm mps e d, EvTime (fst (clock E s4)),
                  EvUpdate u d e, EvTime (fst (clock E s5)), EvEstMean u mean]))"
    by (rule logged_body_many_rows[where h=h and ?s2.0=s2, OF h1 h2 h3 h4 h5 h6 h7 h8 sf])
  have upt: "[0..<nat n_exp] = 0 # [1..<nat n_exp]" using pos by (simp add: upt_conv_Cons)
  from a body show "perf_test (logged E) model n_particles prior n_exp
          (logged_heuristic_class heuristic_class) true_model true_prior (Some mps) (s0, [])
        = (Inl (ValueError ''setting an array element with a sequence.''),
           (s6, [EvSMCUpdater model n_particles prior u, EvHeuristicClass u,
                 EvHeuristic e, EvSimulate ?tm mps e d,
                 EvTime (fst (clock E s4)), EvUpdate u d e, EvTime (fst (clock E s5)),
                 EvEstMean u mean]))"
    by (simp add: perf_test_def Let_def bnd_apply ret_apply lift_apply logging_apply
        logged_heuristic_class_def np_zeros_def upt)
qed

theorem perf_test_no_shape_check_witness:
  "((distinct (map fst (PERFORMANCE_DTYPE @ expparams_dtype (toy_env (Vec [1, 3])) ''model'')) \<and>
     SMCUpdater (toy_env (Vec [1, 3])) ''model'' 10 ''prior'' 0 = (Inr 7, 1) \<and>
     toy_heuristic 7 1 = (Inr (\<lambda>s. (Inr [(''t'', FloatV (real s))], Suc s)), 1)) \<and>
    perf_test (logged (toy_env (Vec [1, 3]))) ''model'' 10 ''prior'' 0
        (logged_heuristic_class toy_heuristic) None None (Some [[0, 0], [1, 1]]) (0, [])
      = (Inr [], (1, [EvSMCUpdater ''model'' 10 ''prior'' 7, EvHeuristicClass 7]))) \<and>
   (((0::int) < 1 \<and> 1 < length [[0, 0], [1, 1 :: real]] \<and>
     list_all (\<lambda>r. length r = length [1, 2 :: real]) [[0, 0], [1, 1 :: real]] \<and>
     Q (toy_env (Vec [1, 3])) ''model'' = Vec [1, 3] \<and> length [1, 3 :: real] = length [1, 2 :: real] \<and>
     distinct (map fst (PERFORMANCE_DTYPE @ expparams_dtype (toy_env (Vec [1, 3])) ''model'')) \<and>
     SMCUpdater (toy_env (Vec [1, 3])) ''model'' 10 ''prior'' 0 = (Inr 7, 1) \<and>
     toy_heuristic 7 1 = (Inr (\<lambda>s. (Inr [(''t'', FloatV (real s))], Suc s)), 1) \<and>
     (\<lambda>s. (Inr [(''t'', FloatV (real s))], Suc s)) (1::nat) = (Inr [(''t'', FloatV 1)], 2) \<and>
     simulate_experiment (toy_env (Vec [1, 3])) (case None of None \<Rightarrow> ''model'' | Some m \<Rightarrow> m)
        [[0, 0], [1, 1]] [(''t'', FloatV 1)] 2 = (Inr 0, 3) \<and>
     update (toy_env (Vec [1, 3])) 7 0 [(''t'', FloatV 1)] (snd (clock (toy_env (Vec [1, 3])) 3))
        = (Inr (), 5) \<and>
     est_mean (toy_env (Vec [1, 3])) 7 (snd (clock (toy_env (Vec [1, 3])) 5)) = (Inr [1, 2], 6)) \<and>
    perf_test (logged (toy_env (Vec [1, 3]))) ''model'' 10 ''prior'' 1
        (logged_heuristic_class toy_heuristic) None None (Some [[0, 0], [1, 1]]) (0, [])
      = (Inl (ValueError ''setting an array element with a sequence.''),
         (6, [EvSMCUpdater ''model'' 10 ''prior'' 7, EvHeuristicClass 7,
              EvHeuristic [(''t'', FloatV 1)],
              EvSimulate (case None of None \<Rightarrow> ''model'' | Some m \<Rightarrow> m) [[0, 0], [1, 1]]
                [(''t'', FloatV 1)] 0,
              EvTime (fst (clock (toy_env (Vec [1, 3])) 3)), EvUpdate 7 0 [(''t'', FloatV 1)],
              EvTime (fst (clock (toy_env (Vec [1, 3])) 5)), EvEstMean 7 [1, 2]])))"
proof -
  let ?E = "toy_env (Vec [1, 3])"
  let ?h = "\<lambda>s::nat. (Inr [(''t'', FloatV (real s))] :: pyexc + expparams, Suc s)"
  have H1: "distinct (map fst (PERFORMANCE_DTYPE @ expparams_dtype ?E ''model'')) \<and>
     SMCUpdater ?E ''model'' 10 ''prior'' 0 = (Inr 7, 1) \<and>
     toy_heuristic 7 1 = (Inr ?h, 1)"
    by (simp add: toy_env_simps toy_heuristic_apply PERFORMANCE_DTYPE_def)
  have H2: "(0::int) < 1 \<and> 1 < length [[0, 0], [1, 1 :: real]] \<and>
     list_all (\<lambda>r. length r = length [1, 2 :: real]) [[0, 0], [1, 1 :: real]] \<and>
     Q ?E ''model'' = Vec [1, 3] \<and> length [1, 3 :: real] = length [1, 2 :: real] \<and>
     distinct (map fst (PERFORMANCE_DTYPE @ expparams_dtype ?E ''model'')) \<and>
     SMCUpdater ?E ''model'' 10 ''prior'' 0 = (Inr 7, 1) \<and>
     toy_heuristic 7 1 = (Inr ?h, 1) \<and>
     ?h 1 = (Inr [(''t'', FloatV 1)], 2) \<and>
     simulate_experiment ?E (case None of None \<Rightarrow> ''model'' | Some m \<Rightarrow> m)
        [[0, 0], [1, 1]] [(''t'', FloatV 1)] 2 = (Inr 0, 3) \<and>
     update ?E 7 0 [(''t'', FloatV 1)] (snd (clock ?E 3)) = (Inr (), 5) \<and>
     est_mean ?E 7 (snd (clock ?E 5)) = (Inr [1, 2], 6)"
    by (simp add: toy_env_simps toy_heuristic_apply PERFORMANCE_DTYPE_def)
  note T = perf_test_no_shape_check[where E="?E" and model="''model''" and n_particles=10
      and prior="''prior''" and ?s0.0=0 and u=7 and ?s1.0=1 and heuristic_class=toy_heuristic
      and h="?h" and ?s2.0=1 and true_model=None and true_prior=None
      and mps="[[0, 0], [1, 1]]" and n_exp=1 and mean="[1, 2]" and q="[1, 3]"
      and e="[(''t'', FloatV 1)]" and ?s3.0=2 and d=0 and ?s4.0=3 and ?s5.0=5 and ?s6.0=6]
  from T[THEN conjunct1, THEN mp, OF H1] T[THEN conjunct2, THEN mp, OF H2] H1 H2
  show ?thesis by (intro conjI) (assumption | simp)+
qed

text \<open>
  C3, as stated, fails: with two rows of true parameters and one experiment, the
  heuristic, the simulation and the update have all been called when the error is
  raised; with no experiments no error is raised at all.
\<close>

theorem perf_test_shape_check_counterexample:
  "length [[0, 0], [1, 1 :: real]] = 2 \<and>
   perf_test (logged (toy_env (Vec [1, 3]))) ''model'' 10 ''prior'' 1
        (logged_heuristic_class toy_heuristic) None None (Some [[0, 0], [1, 1]]) (0, [])
      = (Inl (ValueError ''setting an array element with a sequence.''),
         (6, [EvSMCUpdater ''model'' 10 ''prior'' 7, EvHeuristicClass 7,
              EvHeuristic [(''t'', FloatV 1)],
              EvSimulate ''model'' [[0, 0], [1, 1]] [(''t'', FloatV 1)] 0,
              EvTime 3, EvUpdate 7 0 [(''t'', FloatV 1)], EvTime 5, EvEstMean 7 [1, 2]])) \<and>
   perf_test (logged (toy_env (Vec [1, 3]))) ''model'' 10 ''prior'' 0
        (logged_heuristic_class toy_heuristic) None None (Some [[0, 0], [1, 1]]) (0, [])
      = (Inr [], (1, [EvSMCUpdater ''model'' 10 ''prior'' 7, EvHeuristicClass 7]))"
  by (simp add: run_simps)

lemma collect_unbound:
  assumes "thread locals = Unbound" and "results \<noteq> []"
  shows "\<exists>e. fst (collect get results idx p locals s) = Inl e"
proof -
  from assms(2) obtain r rs where rs: "results = r # rs" by (cases results) auto
  show ?thesis
    unfolding rs using assms(1)
    by (auto simp: bnd_apply lift_apply load_fast_def split: prod.splits sum.splits)
qed

lemma cleanup_unbound:
  "task locals = Unbound \<Longrightarrow> cleanup locals s = (Inl (UnboundLocalError ''task''), s)"
  by (simp add: cleanup_def bnd_apply lift_apply load_fast_def)

lemma np_zeros2_PERFORMANCE_DTYPE:
  "0 \<le> n_trials \<Longrightarrow> 0 \<le> n_exp \<Longrightarrow>
   np_zeros2 n_trials n_exp PERFORMANCE_DTYPE
     = Inr (replicate (nat n_trials) (replicate (nat n_exp) (zero_row PERFORMANCE_DTYPE)))"
  by (simp add: np_zeros2_def PERFORMANCE_DTYPE_def)

text \<open>
  C2. With \<^verbatim>\<open>tskmon_client\<close> equal to \<^verbatim>\<open>None\<close>, \<^verbatim>\<open>perf_test_multiple\<close> never returns
  normally, whatever the engine and the other arguments: the locals \<^verbatim>\<open>thread\<close> and
  \<^verbatim>\<open>task\<close> are read although nothing was assigned to them. With no trials the read of
  \<^verbatim>\<open>task\<close> after the loop raises \<^verbatim>\<open>UnboundLocalError\<close>; with the default engine and at
  least one trial the constructor of \<^verbatim>\<open>apply_serial\<close> raises \<^verbatim>\<open>NameError\<close> before that.
\<close>

theorem perf_test_multiple_without_client_raises:
  "(\<exists>e. fst (perf_test_multiple E n_trials model n_particles prior n_exp heuristic_class
               true_model true_prior apply_fn get None s) = Inl e) \<and>
   (0 \<le> n_exp \<longrightarrow>
      perf_test_multiple E 0 model n_particles prior n_exp heuristic_class
         true_model true_prior apply_fn get None s = (Inl (UnboundLocalError ''task''), s)) \<and>
   (0 \<le> n_exp \<and> 0 < n_trials \<longrightarrow>
      perf_test_multiple E n_trials model n_particles prior n_exp heuristic_class
         true_model true_prior apply_serial_apply (apply_serial_result call) None s
       = (Inl (NameError ''fn''), s))"
proof (intro conjI impI)
  let ?trial = "perf_test E model n_particles prior n_exp heuristic_class true_model true_prior None"
  let ?l0 = "\<lparr>thread = Unbound, task = Unbound, wake_event = Unbound\<rparr> :: 'a locals"
  show "\<exists>e. fst (perf_test_multiple E n_trials model n_particles prior n_exp heuristic_class
               true_model true_prior apply_fn get None s) = Inl e"
  proof (cases "np_zeros2 n_trials n_exp PERFORMANCE_DTYPE")
    case (Inl e)
    then show ?thesis
      by (simp add: perf_test_multiple_def Let_def bnd_apply lift_apply)
  next
    case (Inr p)
    show ?thesis
    proof (cases "dispatch apply_fn ?trial (nat n_trials) s")
      case (Pair r s1)
      show ?thesis
      proof (cases r)
        case (Inl e)
        then show ?thesis
          using Inr Pair
          by (simp add: perf_test_multiple_def Let_def bnd_apply lift_apply ret_apply
              start_progress_def)
      next
        case r: (Inr results)
        show ?thesis
        proof (cases "results = []")
          case True
          then show ?thesis
            using Inr Pair r
            by (simp add: perf_test_multiple_def Let_def bnd_apply lift_apply ret_apply
                start_progress_def cleanup_unbound)
        next
          case False
          from collect_unbound[OF _ False, of ?l0 get 0 p s1]
          obtain e where "fst (collect get results 0 p ?l0 s1) = Inl e" by auto
          then show ?thesis
            using Inr Pair r
            by (auto simp: perf_test_multiple_def Let_def bnd_apply lift_apply ret_apply
                start_progress_def split: prod.splits sum.splits)
        qed
      qed
    qed
  qed
next
  assume "0 \<le> n_exp"
  then show "perf_test_multiple E 0 model n_particles prior n_exp heuristic_class
         true_model true_prior apply_fn get None s = (Inl (UnboundLocalError ''task''), s)"
    by (simp add: perf_test_multiple_def Let_def bnd_apply lift_apply ret_apply
        start_progress_def cleanup_unbound np_zeros2_PERFORMANCE_DTYPE)
next
  assume a: "0 \<le> n_exp \<and> 0 < n_trials"
  then obtain k where k: "nat n_trials = Suc k" by (cases "nat n_trials") auto
  from a show "perf_test_multiple E n_trials model n_particles prior n_exp heuristic_class
         true_model true_prior apply_serial_apply (apply_serial_result call) None s
       = (Inl (NameError ''fn''), s)"
    by (simp add: perf_test_multiple_def Let_def bnd_apply lift_apply ret_apply
        start_progress_def np_zeros2_PERFORMANCE_DTYPE k apply_serial_apply_def
        apply_serial_init_def load_global_def module_globals_def)
qed

theorem perf_test_multiple_without_client_raises_witness:
  "((0::int) \<le> 1 \<and>
    perf_test_multiple (toy_env (Vec [1, 3])) 0 ''model'' 10 ''prior'' 1 toy_heuristic
       None None direct_apply direct_get None 0 = (Inl (UnboundLocalError ''task''), 0)) \<and>
   (((0::int) \<le> 1 \<and> (0::int) < 5) \<and>
    perf_test_multiple (toy_env (Vec [1, 3])) 5 ''model'' 10 ''prior'' 1 toy_heuristic
       None None apply_serial_apply (apply_serial_result (\<lambda>f args kwargs. hd args)) None 0
     = (Inl (NameError ''fn''), 0)) \<and>
   perf_test_multiple (toy_env (Vec [1, 3])) 1 ''model'' 10 ''prior'' 1 toy_heuristic
       None None direct_apply direct_get None 0 = (Inl (UnboundLocalError ''thread''), 7)"
proof -
  note T = perf_test_multiple_without_client_raises[where n_exp=1 and E="toy_env (Vec [1, 3])"
      and model="''model''" and n_particles=10 and prior="''prior''"
      and heuristic_class=toy_heuristic and true_model=None and true_prior=None and s=0
      and n_trials=5 and apply_fn=direct_apply and get=direct_get
      and call="\<lambda>f args kwargs. hd args"]
  have a: "(0::int) \<le> 1" by simp
  have b: "(0::int) \<le> 1 \<and> (0::int) < 5" by simp
  have c: "perf_test_multiple (toy_env (Vec [1, 3])) 1 ''model'' 10 ''prior'' 1 toy_heuristic
       None None direct_apply direct_get None 0 = (Inl (UnboundLocalError ''thread''), 7)"
    by (simp add: perf_test_multiple_def start_progress_def np_zeros2_def direct_apply_def
        direct_get_def setitem_row_def cast_record_def load_fast_def run_simps)
  from T[THEN conjunct2, THEN conjunct1, THEN mp, OF a]
    T[THEN conjunct2, THEN conjunct2, THEN mp, OF b] a b c
  show ?thesis by (intro conjI) (assumption | simp)+
qed

lemma map_fst_cast_record: "map fst (cast_record dt r) = map fst dt"
  by (induction dt) (auto simp: cast_record_def)

lemma setitem_row_shape:
  assumes "setitem_row dt p idx v = Inr p'"
    and "length p = N"
    and "list_all (\<lambda>trial. length trial = n \<and> list_all (\<lambda>r. map fst r = map fst dt) trial) p"
  shows "length p' = N \<and>
     list_all (\<lambda>trial. length trial = n \<and> list_all (\<lambda>r. map fst r = map fst dt) trial) p'"
proof -
  from assms(1) have lt: "idx < length p" by (auto simp: setitem_row_def split: if_splits)
  then have n: "length (p ! idx) = n" using assms(3) by (auto simp: list_all_iff)
  from assms(1) lt have "p' = p[idx := map (cast_record dt) v] \<and> length v = n \<or>
      p' = p[idx := replicate n (cast_record dt (hd v))]"
    using n by (auto simp: setitem_row_def split: if_splits)
  then show ?thesis
    using assms(2,3)
    by (auto simp: list_all_iff map_fst_cast_record dest!: set_update_subset_insert[THEN subsetD])
qed

lemma collect_shape:
  assumes "collect get results idx p locals s = (Inr (p', locals'), s')"
    and "length p = N"
    and "list_all (\<lambda>trial. length trial = n \<and>
           list_all (\<lambda>r. map fst r = map fst PERFORMANCE_DTYPE) trial) p"
  shows "length p' = N \<and>
     list_all (\<lambda>trial. length trial = n \<and>
           list_all (\<lambda>r. map fst r = map fst PERFORMANCE_DTYPE) trial) p'"
  using assms
proof (induction results arbitrary: idx p locals s)
  case Nil
  then show ?case by (simp add: ret_def)
next
  case (Cons result results)
  from Cons.prems(1) obtain v s1 p1 th where
    st: "setitem_row PERFORMANCE_DTYPE p idx v = Inr p1" and
    rest: "(case th of
         None \<Rightarrow> collect get results (Suc idx) p1 locals
       | Some t \<Rightarrow>
           bnd (lift (load_fast ''wake_event'' (wake_event locals))) (\<lambda>ev.
             case ev of
               None \<Rightarrow> lift (Inl (AttributeError ''set''))
             | Some _ \<Rightarrow>
                 collect get results (Suc idx) p1
                   (locals\<lparr>thread :=
                      Obj (event_set (set_dirty (set_progress (int idx + 1) t)))\<rparr>))) s1
        = (Inr (p', locals'), s')"
    by (auto elim!: bnd_successE lift_successE)
  from setitem_row_shape[OF st Cons.prems(2,3)] have
    l1: "length p1 = N" and
    a1: "list_all (\<lambda>trial. length trial = n \<and>
           list_all (\<lambda>r. map fst r = map fst PERFORMANCE_DTYPE) trial) p1"
    by auto
  show ?case
  proof (cases th)
    case None
    with rest have "collect get results (Suc idx) p1 locals s1 = (Inr (p', locals'), s')" by simp
    from Cons.IH[OF this l1 a1] show ?thesis .
  next
    case (Some t)
    with rest obtain locals1 where
      "collect get results (Suc idx) p1 locals1 s1 = (Inr (p', locals'), s')"
      by (auto elim!: bnd_successE lift_successE simp: lift_def split: option.splits)
    from Cons.IH[OF this l1 a1] show ?thesis .
  qed
qed

text \<open>
  C5. Whenever \<^verbatim>\<open>perf_test_multiple\<close> returns, the array has \<^verbatim>\<open>n_trials\<close> rows of
  \<^verbatim>\<open>n_exp\<close> records, and every record has exactly the four fields of
  \<^verbatim>\<open>PERFORMANCE_DTYPE\<close>: the fields of the model's experiment parameters, which the
  records of \<^verbatim>\<open>perf_test\<close> carry, are not in it.
\<close>

theorem perf_test_multiple_shape:
  assumes "perf_test_multiple E n_trials model n_particles prior n_exp heuristic_class
             true_model true_prior apply_fn get tskmon_client s = (Inr performance, s')"
  shows "length performance = nat n_trials \<and>
     list_all (\<lambda>trial. length trial = nat n_exp \<and>
        list_all (\<lambda>r. map fst r = [''loss'', ''resample_count'', ''elapsed_time'', ''outcome''])
          trial) performance"
proof -
  from assms obtain p0 results s1 locals locals' s2 where
    z: "np_zeros2 n_trials n_exp PERFORMANCE_DTYPE = Inr p0" and
    c: "collect get results 0 p0 locals s1 = (Inr (performance, locals'), s2)"
    unfolding perf_test_multiple_def Let_def
    by (auto elim!: bnd_successE lift_successE ret_successE)
  from z have p0: "p0 = replicate (nat n_trials) (replicate (nat n_exp) (zero_row PERFORMANCE_DTYPE))"
    by (auto simp: np_zeros2_def split: if_splits)
  have names: "map fst (zero_row PERFORMANCE_DTYPE) = map fst PERFORMANCE_DTYPE"
    by (simp add: zero_row_def PERFORMANCE_DTYPE_def)
  have l0: "length p0 = nat n_trials" using p0 by simp
  have a0: "list_all (\<lambda>trial. length trial = nat n_exp \<and>
           list_all (\<lambda>r. map fst r = map fst PERFORMANCE_DTYPE) trial) p0"
    using p0 names by (simp add: list_all_iff)
  from collect_shape[OF c l0 a0] show ?thesis
    by (simp add: PERFORMANCE_DTYPE_def)
qed

theorem perf_test_multiple_shape_witness:
  "perf_test_multiple (toy_env (Vec [1, 3])) 1 ''model'' 10 ''prior'' 1 toy_heuristic
       None None direct_apply direct_get (Some quiet_client) 0
     = (Inr [[[(''loss'', FloatV 13), (''resample_count'', IntV 7), (''elapsed_time'', FloatV 2),
               (''outcome'', IntV 1)]]], 7) \<and>
   perf_test (toy_env (Vec [1, 3])) ''model'' 10 ''prior'' 1 toy_heuristic None None None 0
     = (Inr [[(''loss'', FloatV 13), (''resample_count'', IntV 7), (''elapsed_time'', FloatV 2),
              (''outcome'', IntV 1), (''t'', FloatV 2)]], 7) \<and>
   (length [[[(''loss'', FloatV 13), (''resample_count'', IntV 7), (''elapsed_time'', FloatV 2),
               (''outcome'', IntV 1)]]] = nat 1 \<and>
    list_all (\<lambda>trial. length trial = nat 1 \<and>
        list_all (\<lambda>r. map fst r = [''loss'', ''resample_count'', ''elapsed_time'', ''outcome''])
          trial)
      [[[(''loss'', FloatV 13), (''resample_count'', IntV 7), (''elapsed_time'', FloatV 2),
               (''outcome'', IntV 1)]]])"
proof -
  have a: "perf_test_multiple (toy_env (Vec [1, 3])) 1 ''model'' 10 ''prior'' 1 toy_heuristic
       None None direct_apply direct_get (Some quiet_client) 0
     = (Inr [[[(''loss'', FloatV 13), (''resample_count'', IntV 7), (''elapsed_time'', FloatV 2),
               (''outcome'', IntV 1)]]], 7)"
    by (simp add: perf_test_multiple_def start_progress_def np_zeros2_def direct_apply_def
        direct_get_def setitem_row_def cast_record_def load_fast_def quiet_client_def
        cleanup_def new_thread_def run_simps)
  have b: "perf_test (toy_env (Vec [1, 3])) ''model'' 10 ''prior'' 1 toy_heuristic None None None 0
     = (Inr [[(''loss'', FloatV 13), (''resample_count'', IntV 7), (''elapsed_time'', FloatV 2),
              (''outcome'', IntV 1), (''t'', FloatV 2)]], 7)"
    by (simp add: run_simps)
  from a b perf_test_multiple_shape[OF a] show ?thesis by (intro conjI) (assumption | simp)+
qed

lemma conc_inv_conc0: "conc_inv n conc0"
  by (simp add: conc_inv_def conc0_def new_thread_def)

lemma conc_inv_main_step:
  assumes "conc_inv n c"
  shows "conc_inv n (main_step n c)"
proof (cases "c_main c")
  case MCollect
  with assms show ?thesis by (auto simp: conc_inv_def main_step_def)
next
  case MSetProgress
  with assms show ?thesis
    by (auto simp: conc_inv_def main_step_def set_progress_def list_all_iff)
next
  case MSetDirty
  with assms show ?thesis by (auto simp: conc_inv_def main_step_def set_dirty_def)
next
  case MSetEvent
  with assms show ?thesis by (auto simp: conc_inv_def main_step_def event_set_def)
next
  case MDone
  with assms show ?thesis by (auto simp: conc_inv_def main_step_def)
next
  case MWake
  with assms show ?thesis by (auto simp: conc_inv_def main_step_def event_set_def)
next
  case MDelete
  with assms show ?thesis by (auto simp: conc_inv_def main_step_def)
next
  case MReturned
  with assms show ?thesis by (auto simp: conc_inv_def main_step_def)
qed

lemma conc_inv_thread_step:
  assumes "conc_inv n c"
  shows "conc_inv n (thread_step ok c)"
proof (cases "c_thread c")
  case TUpdate
  from assms have le: "\<forall>x\<in>set (map fst (c_pushed c)). x \<le> progress (c_shared c)"
    by (auto simp: conc_inv_def list_all_iff)
  with TUpdate assms show ?thesis
    by (auto simp: conc_inv_def thread_step_def sorted_append)
qed (use assms in \<open>auto simp: conc_inv_def thread_step_def\<close>)

lemma conc_inv_run:
  "conc_inv n c \<Longrightarrow> conc_inv n (run n turns c)"
proof (induction turns arbitrary: c)
  case Nil
  then show ?case by simp
next
  case (Cons t turns)
  show ?case
  proof (cases t)
    case Main
    have "conc_inv n (run n turns (main_step n c))"
      by (rule Cons.IH[OF conc_inv_main_step[OF Cons.prems]])
    with Main show ?thesis by simp
  next
    case (Reporter ok)
    have "conc_inv n (run n turns (thread_step ok c))"
      by (rule Cons.IH[OF conc_inv_thread_step[OF Cons.prems]])
    with Reporter show ?thesis by simp
  qed
qed

lemma main_view_thread_step: "main_view (thread_step ok c) = main_view c"
  by (auto simp: main_view_def thread_step_def split: thread_pc.splits)

lemma main_view_main_step:
  "main_view c = main_view c' \<Longrightarrow> main_view (main_step n c) = main_view (main_step n c')"
  by (auto simp: main_view_def main_step_def set_progress_def set_dirty_def event_set_def
      split: main_pc.splits)

lemma main_view_run:
  "main_view c = main_view c' \<Longrightarrow>
   main_view (run n turns c) = main_view (run n (filter is_main turns) c')"
proof (induction turns arbitrary: c c')
  case Nil
  then show ?case by simp
next
  case (Cons t turns)
  show ?case
  proof (cases t)
    case Main
    have "main_view (run n turns (main_step n c))
        = main_view (run n (filter is_main turns) (main_step n c'))"
      by (rule Cons.IH[OF main_view_main_step[OF Cons.prems]])
    with Main show ?thesis by simp
  next
    case (Reporter ok)
    have "main_view (thread_step ok c) = main_view c'"
      using Cons.prems by (simp only: main_view_thread_step)
    then have "main_view (run n turns (thread_step ok c))
        = main_view (run n (filter is_main turns) c')"
      by (rule Cons.IH)
    with Reporter show ?thesis by simp
  qed
qed

text \<open>
  C9, as the code has it. In every interleaving of the harness and the reporting
  thread: the harness has set \<^verbatim>\<open>progress\<close> to \<^verbatim>\<open>idx + 1\<close> once the statement after the
  collection of result \<^verbatim>\<open>idx\<close> has run, and to nothing else; the progress values passed
  to \<^verbatim>\<open>update\<close> never decrease and lie between 1 and \<^verbatim>\<open>n_trials\<close>; every call of
  \<^verbatim>\<open>update\<close> that raised was printed; and the harness's side of the run is what it
  would be with no thread at all, whatever the thread's calls do.
\<close>

theorem progress_reports_interleaved:
  "sorted (map fst (c_pushed (run n_trials turns conc0))) \<and>
   list_all (\<lambda>(v, ok). 1 \<le> v \<and> v \<le> int n_trials) (c_pushed (run n_trials turns conc0)) \<and>
   c_printed (run n_trials turns conc0)
     = length (filter (\<lambda>(v, ok). \<not> ok) (c_pushed (run n_trials turns conc0))) \<and>
   progress (c_shared (run n_trials turns conc0))
     = (if c_main (run n_trials turns conc0) \<in> {MSetDirty, MSetEvent}
        then int (c_idx (run n_trials turns conc0)) + 1
        else int (c_idx (run n_trials turns conc0))) \<and>
   main_view (run n_trials turns conc0) = main_view (run n_trials (filter is_main turns) conc0)"
proof -
  let ?c = "run n_trials turns conc0"
  have inv: "conc_inv n_trials ?c"
    by (rule conc_inv_run[OF conc_inv_conc0])
  from inv have i1: "c_idx ?c \<le> n_trials"
    and i2: "c_main ?c \<in> {MSetProgress, MSetDirty, MSetEvent} \<longrightarrow> c_idx ?c < n_trials"
    and i3: "progress (c_shared ?c)
        = (if c_main ?c \<in> {MSetDirty, MSetEvent} then int (c_idx ?c) + 1 else int (c_idx ?c))"
    and i4: "sorted (map fst (c_pushed ?c))"
    and i5: "list_all (\<lambda>(v, ok). 1 \<le> v \<and> v \<le> progress (c_shared ?c)) (c_pushed ?c)"
    and i6: "c_printed ?c = length (filter (\<lambda>(v, ok). \<not> ok) (c_pushed ?c))"
    unfolding conc_inv_def by blast+
  have le: "progress (c_shared ?c) \<le> int n_trials"
  proof (cases "c_main ?c \<in> {MSetDirty, MSetEvent}")
    case True
    with i2 have "c_idx ?c < n_trials" by blast
    with True i3 show ?thesis by simp
  next
    case False
    with i1 i3 show ?thesis by simp
  qed
  have range: "list_all (\<lambda>(v, ok). 1 \<le> v \<and> v \<le> int n_trials) (c_pushed ?c)"
    using i5 le by (auto simp: list_all_iff)
  have mv: "main_view ?c = main_view (run n_trials (filter is_main turns) conc0)"
    by (rule main_view_run[OF refl])
  show ?thesis
    by (intro conjI i4 range i6 i3 mv)
qed

text \<open>
  C9, as stated, fails. A call of \<^verbatim>\<open>update\<close> that raises leaves \<^verbatim>\<open>dirty\<close> and the event
  set, so the thread calls again with the same progress: the values passed are 1, 1.
  And without any failure, when the thread reads \<^verbatim>\<open>progress\<close> between the harness's
  assignment of 2 and its \<^verbatim>\<open>dirty = True\<close>, the values passed are 2, 2: the sequence does
  not start at 1 and is not strictly increasing.
\<close>

theorem progress_reports_counterexample:
  "c_pushed (run 1 [Main, Main, Main, Main,
                    Reporter True, Reporter True, Reporter False,
                    Reporter True, Reporter True, Reporter True, Reporter True] conc0)
     = [(1, False), (1, True)] \<and>
   c_pushed (run 2 [Main, Main, Main, Main, Main, Main,
                    Reporter True, Reporter True, Reporter True, Reporter True, Reporter True,
                    Main, Main,
                    Reporter True, Reporter True, Reporter True, Reporter True] conc0)
     = [(2, True), (2, True)]"
  by (simp add: conc0_def new_thread_def main_step_def thread_step_def set_progress_def
      set_dirty_def event_set_def)

theorem progress_reports_interleaved_witness:
  "sorted (map fst (c_pushed (run 2 [Main, Main, Main, Main, Reporter True, Reporter True,
      Reporter False, Reporter True, Reporter True, Reporter True, Reporter True] conc0))) \<and>
   c_pushed (run 2 [Main, Main, Main, Main, Reporter True, Reporter True,
      Reporter False, Reporter True, Reporter True, Reporter True, Reporter True] conc0)
     = [(1, False), (1, True)] \<and>
   c_printed (run 2 [Main, Main, Main, Main, Reporter True, Reporter True,
      Reporter False, Reporter True, Reporter True, Reporter True, Reporter True] conc0) = 1 \<and>
   main_view (run 2 [Main, Main, Main, Main, Reporter True, Reporter True,
      Reporter False, Reporter True, Reporter True, Reporter True, Reporter True] conc0)
     = (MCollect, 1, 1) \<and>
   main_view (run 2 [Main, Main, Main, Main] conc0) = (MCollect, 1, 1)"
  using progress_reports_interleaved[of 2 "[Main, Main, Main, Main, Reporter True, Reporter True,
      Reporter False, Reporter True, Reporter True, Reporter True, Reporter True]"]
  by (simp add: conc0_def new_thread_def main_step_def thread_step_def set_progress_def
      set_dirty_def event_set_def main_view_def)

end
